theory Spec2Isabelle
  imports Complex_Main "HOL-Library.AList"
begin

section \<open>Python primitives used by the sources\<close>

text \<open>
  Python strings are modelled as \<^typ>\<open>string\<close> (one \<^typ>\<open>char\<close> per character, ASCII
  text; the few non-ASCII literals of the sources are spelled as their UTF-8 bytes),
  Python integers as \<^typ>\<open>int\<close>, and a \<open>dict\<close> as an association list in insertion
  order, its keys distinct: \<open>d[k] = v\<close> is \<^const>\<open>AList.update\<close> (overwrite in place,
  else append), \<open>d[k]\<close> is \<^const>\<open>map_of\<close> with \<open>None\<close> standing for \<open>KeyError\<close>,
  \<open>k in d\<close> is \<open>map_of d k \<noteq> None\<close>.

  A Python \<open>float\<close> is modelled as a real number or \<open>NaN\<close>: arithmetic is exact, a
  \<open>NaN\<close> operand gives \<open>NaN\<close>, and every comparison with \<open>NaN\<close> is false. Infinities
  and rounding are not modelled.
\<close>

datatype py_error = KeyError | TypeError | AttributeError | JSONDecodeError | PandasError

datatype pyfloat = Fin real | NaN

fun fsub :: "pyfloat \<Rightarrow> pyfloat \<Rightarrow> pyfloat" where
  "fsub (Fin a) (Fin b) = Fin (a - b)"
| "fsub _ _ = NaN"

fun fmul :: "pyfloat \<Rightarrow> pyfloat \<Rightarrow> pyfloat" where
  "fmul (Fin a) (Fin b) = Fin (a * b)"
| "fmul _ _ = NaN"

fun fabs :: "pyfloat \<Rightarrow> pyfloat" where
  "fabs (Fin a) = Fin \<bar>a\<bar>"
| "fabs NaN = NaN"

text \<open>\<open>x > c\<close> and \<open>x < c\<close> against a float literal \<open>c\<close>.\<close>

fun fgt :: "pyfloat \<Rightarrow> real \<Rightarrow> bool" where
  "fgt (Fin a) c = (c < a)"
| "fgt NaN c = False"

fun flt :: "pyfloat \<Rightarrow> real \<Rightarrow> bool" where
  "flt (Fin a) c = (a < c)"
| "flt NaN c = False"

text \<open>
  \<open>numpy.mean\<close> of a list of floats: of the empty list it is \<open>nan\<close> (numpy warns
  "Mean of empty slice" and goes on).
\<close>

definition np_mean :: "real list \<Rightarrow> pyfloat" where
  "np_mean xs = (if xs = [] then NaN else Fin (sum_list xs / real (length xs)))"

text \<open>The values of a \<open>Dict[str, any]\<close> result.\<close>

datatype pyval = PNone | PFloat pyfloat | PStr string | PBool bool | PInt int

text \<open>\<open>str(n)\<close> of an integer, as an f-string prints it.\<close>

fun str_nat :: "nat \<Rightarrow> string" where
  "str_nat n =
     (if n < 10 then [char_of (48 + n)] else str_nat (n div 10) @ [char_of (48 + n mod 10)])"

declare str_nat.simps [simp del]

definition str_int :: "int \<Rightarrow> string" where
  "str_int i = (if i < 0 then CHR ''-'' # str_nat (nat (- i)) else str_nat (nat i))"

text \<open>Sequencing of steps that may raise: the first exception ends the computation.\<close>

fun bind_err :: "py_error + 'a \<Rightarrow> ('a \<Rightarrow> py_error + 'b) \<Rightarrow> py_error + 'b" where
  "bind_err (Inl e) f = Inl e"
| "bind_err (Inr x) f = f x"

fun map_err :: "('a \<Rightarrow> py_error + 'b) \<Rightarrow> 'a list \<Rightarrow> py_error + 'b list" where
  "map_err f [] = Inr []"
| "map_err f (x # xs) = bind_err (f x) (\<lambda>y. bind_err (map_err f xs) (\<lambda>ys. Inr (y # ys)))"

text \<open>\<open>xs.index(x)\<close>, called only where \<open>x in xs\<close> has been tested.\<close>

fun index_of :: "'a list \<Rightarrow> 'a \<Rightarrow> nat" where
  "index_of [] x = 0"
| "index_of (y # ys) x = (if y = x then 0 else Suc (index_of ys x))"

text \<open>\<open>str.lower()\<close> on ASCII text: the letters \<open>A\<close>..\<open>Z\<close> move to \<open>a\<close>..\<open>z\<close>.\<close>

definition lower_char :: "char \<Rightarrow> char" where
  "lower_char c =
     (let n = (of_char c :: nat) in if 65 \<le> n \<and> n \<le> 90 then char_of (n + 32) else c)"

definition lower :: "string \<Rightarrow> string" where
  "lower s = map lower_char s"

text \<open>\<open>t.startswith(s)\<close>, the test every substring primitive repeats at each offset.\<close>

definition startswith :: "string \<Rightarrow> string \<Rightarrow> bool" where
  "startswith t s = (take (length s) t = s)"

text \<open>\<open>s in t\<close>: some offset of \<open>t\<close> (the end included) starts with \<open>s\<close>.\<close>

fun py_contains :: "string \<Rightarrow> string \<Rightarrow> bool" where
  "py_contains [] s = (s = [])"
| "py_contains (c # cs) s = (startswith (c # cs) s \<or> py_contains cs s)"

text \<open>
  \<open>t.find(s)\<close>: the lowest offset at which \<open>s\<close> occurs, \<open>-1\<close> when there is none.
  \<open>find_from i\<close> scans a suffix whose first character has offset \<open>i\<close>.
\<close>

fun find_from :: "nat \<Rightarrow> string \<Rightarrow> string \<Rightarrow> int" where
  "find_from i [] s = (if s = [] then int i else - 1)"
| "find_from i (c # cs) s =
     (if startswith (c # cs) s then int i else find_from (Suc i) cs s)"

definition py_find :: "string \<Rightarrow> string \<Rightarrow> int" where
  "py_find t s = find_from 0 t s"

text \<open>\<open>t.find(s, start)\<close> for \<open>start \<ge> 0\<close>: past the end nothing is found.\<close>

definition py_find_start :: "string \<Rightarrow> string \<Rightarrow> nat \<Rightarrow> int" where
  "py_find_start t s start =
     (if length t < start then - 1 else find_from start (drop start t) s)"

text \<open>
  \<open>t.count(s)\<close>: non-overlapping occurrences, scanned from the left; a match skips
  \<open>len(s)\<close> characters. The empty string is counted once at every offset, the end
  included, hence \<open>len(t) + 1\<close> times.
\<close>

function count_from :: "string \<Rightarrow> string \<Rightarrow> nat" where
  "count_from t s =
     (if s = [] \<or> length t < length s then 0
      else if startswith t s then Suc (count_from (drop (length s) t) s)
      else count_from (tl t) s)"
  by pat_completeness auto
termination
proof (relation "measure (\<lambda>(t, s). length t)")
  show "wf (measure (\<lambda>(t, s). length t))" by simp
next
  fix t s :: string
  assume "\<not> (s = [] \<or> length t < length s)"
  then have "0 < length s" "length s \<le> length t" by auto
  then have "length t - length s < length t" by arith
  then show "((drop (length s) t, s), t, s) \<in> measure (\<lambda>(t, s). length t)" by simp
next
  fix t s :: string
  assume "\<not> (s = [] \<or> length t < length s)"
  then have "0 < length t" by (cases t) auto
  then show "((tl t, s), t, s) \<in> measure (\<lambda>(t, s). length t)" by simp
qed

declare count_from.simps [simp del]

definition py_count :: "string \<Rightarrow> string \<Rightarrow> int" where
  "py_count t s = (if s = [] then int (length t) + 1 else int (count_from t s))"

section \<open>Data model (models.py)\<close>

record BrandMention =
  mentioned :: bool
  first_position :: "int option"
  count :: int

record QueryResult =
  timestamp :: string
  category :: string
  query :: string
  run :: int
  model :: string
  provider :: string
  response :: string
  mentions :: "(string \<times> BrandMention) list"
  mention_order :: "string list"
  total_mentioned :: int

record SOMMetrics =
  brand :: string
  mention_rate :: real
  first_mention_rate :: real
  avg_position :: "real option"
  total_mentions :: int
  total_queries :: int

section \<open>ResponseAnalyzer (analyzer.py)\<close>

text \<open>The body of the loop of \<open>extract_mentions\<close> for one brand.\<close>

definition mention_of :: "string \<Rightarrow> string \<Rightarrow> BrandMention" where
  "mention_of text_lower brand_name =
     (let brand_lower = lower brand_name in
      if py_contains text_lower brand_lower
      then \<lparr>mentioned = True,
            first_position = Some (py_find text_lower brand_lower),
            count = py_count text_lower brand_lower\<rparr>
      else \<lparr>mentioned = False, first_position = None, count = 0\<rparr>)"

definition extract_mentions :: "string list \<Rightarrow> string \<Rightarrow> (string \<times> BrandMention) list" where
  "extract_mentions brands text =
     (let text_lower = lower text in
      fold (\<lambda>b acc. AList.update b (mention_of text_lower b) acc) brands [])"

text \<open>
  What it means for \<open>s\<close> to occur in \<open>t\<close> at offset \<open>i\<close>; the yardstick for
  \<open>in\<close>, \<open>find\<close> and \<open>count\<close>.
\<close>

definition occurs_at :: "string \<Rightarrow> string \<Rightarrow> nat \<Rightarrow> bool" where
  "occurs_at t s i = (i \<le> length t \<and> startswith (drop i t) s)"

section \<open>SOMMonitor.calculate_som (monitor.py)\<close>

text \<open>
  The three tests of the loop body: \<open>brand in r.mentions and r.mentions[brand].mentioned\<close>,
  \<open>brand in r.mention_order\<close>, and \<open>r.mention_order and r.mention_order[0] == brand\<close>.
\<close>

definition is_mentioned :: "QueryResult \<Rightarrow> string \<Rightarrow> bool" where
  "is_mentioned r b = (case map_of (mentions r) b of None \<Rightarrow> False | Some m \<Rightarrow> mentioned m)"

definition is_first_mention :: "QueryResult \<Rightarrow> string \<Rightarrow> bool" where
  "is_first_mention r b = (case mention_order r of [] \<Rightarrow> False | x # _ \<Rightarrow> x = b)"

text \<open>The body of the loop over \<open>self.brands\<close>, for a non-empty list of results.\<close>

definition som_for_brand :: "QueryResult list \<Rightarrow> string \<Rightarrow> SOMMetrics" where
  "som_for_brand rs b =
     (let total = int (length rs);
          n_mentions = int (length (filter (\<lambda>r. is_mentioned r b) rs));
          positions = map (\<lambda>r. int (index_of (mention_order r) b) + 1)
                        (filter (\<lambda>r. b \<in> set (mention_order r)) rs);
          n_first = int (length (filter (\<lambda>r. is_first_mention r b) rs))
      in \<lparr>brand = b,
          mention_rate = real_of_int n_mentions / real_of_int total,
          first_mention_rate = real_of_int n_first / real_of_int total,
          avg_position =
            (if positions \<noteq> [] then
               Some (real_of_int (sum_list positions) / real (length positions))
             else None),
          total_mentions = n_mentions,
          total_queries = total\<rparr>)"

text \<open>
  \<open>calculate_som\<close>, with \<open>self.brands\<close> as its first argument and the results given
  (the default \<open>None\<close> stands for \<open>self.results\<close>, which the caller passes here).
\<close>

definition calculate_som :: "string list \<Rightarrow> QueryResult list \<Rightarrow> (string \<times> SOMMetrics) list" where
  "calculate_som bs rs =
     (if rs = [] then []
      else fold (\<lambda>b som_metrics. AList.update b (som_for_brand rs b) som_metrics) bs [])"

section \<open>ConfidenceCalculator.evaluate_data_quality (confidence_intervals.py)\<close>

definition icon_warning :: string where
  "icon_warning = [CHR 0xE2, CHR 0x9A, CHR 0xA0, CHR 0xEF, CHR 0xB8, CHR 0x8F]"

definition icon_bolt :: string where
  "icon_bolt = [CHR 0xE2, CHR 0x9A, CHR 0xA1]"

definition icon_check :: string where
  "icon_check = [CHR 0xE2, CHR 0x9C, CHR 0x93]"

definition icon_star :: string where
  "icon_star = [CHR 0xE2, CHR 0xAD, CHR 0x90]"

definition evaluate_data_quality :: "int \<Rightarrow> (string \<times> pyval) list" where
  "evaluate_data_quality sample_size =
     (let (quality, color, recommendation, icon) =
        (if sample_size < 30 then
           (''LOW'', ''#f44336'',
            ''Collect '' @ str_int (30 - sample_size) @ '' more samples for statistical significance'',
            icon_warning)
         else if sample_size < 100 then
           (''MODERATE'', ''#ff9800'',
            ''Consider '' @ str_int (100 - sample_size) @ '' more samples for higher confidence'',
            icon_bolt)
         else if sample_size < 300 then
           (''GOOD'', ''#4caf50'', ''Sample size adequate for reliable insights'', icon_check)
         else
           (''EXCELLENT'', ''#2196f3'', ''Sample size excellent for high-confidence analysis'',
            icon_star))
      in [(''quality'', PStr quality), (''color'', PStr color),
          (''recommendation'', PStr recommendation), (''icon'', PStr icon),
          (''sample_size'', PInt sample_size)])"

section \<open>TrendAnalyzer.calculate_velocity (confidence_intervals.py)\<close>

definition icon_up :: string where
  "icon_up = [CHR 0xE2, CHR 0x86, CHR 0x97, CHR 0xEF, CHR 0xB8, CHR 0x8F]"

definition icon_down :: string where
  "icon_down = [CHR 0xE2, CHR 0x86, CHR 0x98, CHR 0xEF, CHR 0xB8, CHR 0x8F]"

definition icon_right :: string where
  "icon_right = [CHR 0xE2, CHR 0x86, CHR 0x92]"

text \<open>\<open>[time_series[i] - time_series[i-1] for i in range(1, len(time_series))]\<close>\<close>

definition changes_of :: "real list \<Rightarrow> real list" where
  "changes_of ts = map (\<lambda>i. ts ! i - ts ! (i - 1)) [1..<length ts]"

text \<open>
  The acceleration block; \<open>changes[-2:]\<close> and \<open>changes[:-2]\<close> of a list of at least two
  elements are its last two elements and the ones before them.
\<close>

definition acceleration_of :: "real list \<Rightarrow> pyfloat" where
  "acceleration_of changes =
     (if 2 \<le> length changes then
        (let recent_velocity = np_mean (drop (length changes - 2) changes);
             earlier_velocity = np_mean (take (length changes - 2) changes)
         in fsub recent_velocity earlier_velocity)
      else Fin 0)"

text \<open>
  \<open>scipy.stats.kendalltau(range(len(time_series)), time_series)\<close> is a parameter of the
  model: \<open>kendalltau\<close> maps the series to \<open>(tau, p_value)\<close>.
\<close>

definition calculate_velocity ::
  "(real list \<Rightarrow> pyfloat \<times> pyfloat) \<Rightarrow> real list \<Rightarrow> (string \<times> pyval) list" where
  "calculate_velocity kendalltau time_series =
     (if length time_series < 2 then
        [(''velocity'', PFloat (Fin 0)), (''direction'', PStr ''stable''),
         (''acceleration'', PFloat (Fin 0)), (''trend'', PStr ''insufficient_data'')]
      else
        (let changes = changes_of time_series;
             avg_change = np_mean changes;
             (direction, icon) =
               (if fgt avg_change (1 / 100) then (''increasing'', icon_up)
                else if flt avg_change (- (1 / 100)) then (''decreasing'', icon_down)
                else (''stable'', icon_right));
             acceleration = acceleration_of changes;
             (is_trending, trend_strength) =
               (if 3 \<le> length time_series then
                  (let (tau, p_value) = kendalltau time_series
                   in (flt p_value (5 / 100), fabs tau))
                else (False, Fin 0))
         in [(''velocity'', PFloat avg_change),
             (''velocity_pct'', PFloat (fmul avg_change (Fin 100))),
             (''direction'', PStr direction), (''icon'', PStr icon),
             (''acceleration'', PFloat acceleration),
             (''is_accelerating'', PBool (fgt (fabs acceleration) (5 / 1000))),
             (''is_trending'', PBool is_trending),
             (''trend_strength'', PFloat trend_strength)]))"

section \<open>ConfidenceCalculator.calculate_proportion_confidence in exact arithmetic\<close>

text \<open>
  The Wilson score interval with every float read as the real number it stands for:
  no rounding, and \<open>numpy.sqrt\<close> as the real square root (its arguments are not
  negative when \<open>0 \<le> successes \<le> total\<close>). \<open>self.confidence_level\<close> and \<open>self.z_score\<close>
  (\<open>scipy.stats.norm.ppf\<close> of it) are the first two arguments. The field \<open>value\<close> is
  named \<open>ci_value\<close> here.
\<close>

record ConfidenceMetrics =
  ci_value :: real
  lower_bound :: real
  upper_bound :: real
  confidence_level :: real
  sample_size :: int
  standard_error :: real
  is_significant :: bool
  margin_of_error :: real

definition calculate_proportion_confidence ::
  "real \<Rightarrow> real \<Rightarrow> int \<Rightarrow> int \<Rightarrow> ConfidenceMetrics" where
  "calculate_proportion_confidence conf z successes n_total =
     (if n_total = 0 then
        \<lparr>ci_value = 0, lower_bound = 0, upper_bound = 0, confidence_level = conf,
         sample_size = 0, standard_error = 0, is_significant = False, margin_of_error = 0\<rparr>
      else
        (let proportion = real_of_int successes / real_of_int n_total;
             denominator = 1 + z\<^sup>2 / real_of_int n_total;
             center = (proportion + z\<^sup>2 / (2 * real_of_int n_total)) / denominator;
             margin = z * sqrt ((proportion * (1 - proportion)
                        + z\<^sup>2 / (4 * real_of_int n_total)) / real_of_int n_total) / denominator;
             lower = max 0 (center - margin);
             upper = min 1 (center + margin);
             se = (if n_total > 1
                   then sqrt (proportion * (1 - proportion) / real_of_int n_total) else 0)
         in \<lparr>ci_value = proportion, lower_bound = lower, upper_bound = upper,
             confidence_level = conf, sample_size = n_total, standard_error = se,
             is_significant = (n_total \<ge> 30), margin_of_error = margin\<rparr>))"

section \<open>ThemeAnalyzer (theme_analyzer.py)\<close>

record ThemeInsight =
  theme :: string
  brand :: string
  frequency :: real
  example_quotes :: "string list"
  sentiment :: string

record NarrativeAnalysis =
  attribute :: string
  brand_ownership :: "(string \<times> real) list"
  leader :: string
  leader_score :: real
  gap_analysis :: "(string \<times> real) list"
  example_quotes :: "(string \<times> string list) list"

definition ATTRIBUTES :: "string list" where
  "ATTRIBUTES =
     [''reliability'', ''network_quality'', ''coverage'', ''5g'',
      ''price'', ''value'', ''affordable'', ''cheap'',
      ''customer_service'', ''support'', ''service'',
      ''innovation'', ''technology'', ''modern'',
      ''speed'', ''fast'', ''performance'',
      ''international'', ''roaming'', ''global'',
      ''business'', ''enterprise'', ''corporate'',
      ''flexibility'', ''contract'', ''prepaid'',
      ''data'', ''unlimited'', ''volume'',
      ''premium'', ''quality'', ''best'']"

text \<open>The class \<open>\w\<close> on ASCII text: letters, digits and the underscore.\<close>

definition is_word_char :: "char \<Rightarrow> bool" where
  "is_word_char c =
     (let n = (of_char c :: nat)
      in (48 \<le> n \<and> n \<le> 57) \<or> (65 \<le> n \<and> n \<le> 90) \<or> (97 \<le> n \<and> n \<le> 122) \<or> n = 95)"

text \<open>
  \<open>re.compile(r'\b' + re.escape(attr) + r'\w*\b', re.IGNORECASE).search(s)\<close> for an
  attribute that starts and ends with a word character, as all of \<open>ATTRIBUTES\<close> do:
  the pattern matches where \<open>attr\<close> occurs (letters compared without case) and the
  character before it, if any, is not a word character; \<open>\w*\b\<close> then always succeeds
  at the end of the run of word characters. \<open>search_from p s a\<close> scans \<open>s\<close>, \<open>p\<close>
  telling whether the character before it is a word character.
\<close>

fun search_from :: "bool \<Rightarrow> string \<Rightarrow> string \<Rightarrow> bool" where
  "search_from p [] a = False"
| "search_from p (c # cs) a =
     ((\<not> p \<and> startswith (c # cs) a) \<or> search_from (is_word_char c) cs a)"

definition attribute_search :: "string \<Rightarrow> string \<Rightarrow> bool" where
  "attribute_search attr s = search_from False (lower s) (lower attr)"

text \<open>
  The loop of \<open>_extract_brand_contexts\<close>, \<open>start\<close> being its loop variable; the slice
  \<open>text[context_start:context_end]\<close> is \<open>take (context_end - context_start) (drop
  context_start text)\<close>.
\<close>

lemma find_from_bounds:
  "find_from i t s = - 1 \<or> (int i \<le> find_from i t s \<and> find_from i t s \<le> int (i + length t))"
proof (induction t arbitrary: i)
  case Nil
  show ?case by simp
next
  case (Cons c cs)
  from Cons [of "Suc i"] show ?case by auto
qed

function contexts_from :: "string \<Rightarrow> string \<Rightarrow> nat \<Rightarrow> nat \<Rightarrow> string list" where
  "contexts_from text brand_name window start =
     (let pos = py_find_start (lower text) (lower brand_name) start in
      if pos = - 1 then []
      else
        (let context_start = nat pos - window;
             context_end = min (length text) (nat pos + length brand_name + window)
         in take (context_end - context_start) (drop context_start text)
            # contexts_from text brand_name window (nat pos + 1)))"
  by pat_completeness auto
termination
proof (relation "measure (\<lambda>(text, brand_name, window, start). Suc (length text) - start)")
  show "wf (measure (\<lambda>(text, brand_name, window, start). Suc (length text) - start))" by simp
next
  fix t b :: string and w start :: nat and pos :: int
  assume pos: "pos = py_find_start (lower t) (lower b) start" and found: "pos \<noteq> - 1"
  then have le: "\<not> length (lower t) < start"
    by (auto simp: py_find_start_def split: if_splits)
  with pos have "pos = find_from start (drop start (lower t)) (lower b)"
    by (simp add: py_find_start_def)
  with found find_from_bounds [of start "drop start (lower t)" "lower b"] le
  have "int start \<le> pos" and "pos \<le> int (length (lower t))" by auto
  then have "start \<le> nat pos" and "nat pos \<le> length t" by (auto simp: lower_def)
  then show "((t, b, w, nat pos + 1), t, b, w, start)
      \<in> measure (\<lambda>(text, brand_name, window, start). Suc (length text) - start)"
    by simp
qed

declare contexts_from.simps [simp del]

definition extract_brand_contexts :: "string \<Rightarrow> string \<Rightarrow> nat \<Rightarrow> string list" where
  "extract_brand_contexts text brand_name window = contexts_from text brand_name window 0"

text \<open>\<open>' '.join(quotes)\<close>\<close>

fun join_space :: "string list \<Rightarrow> string" where
  "join_space [] = []"
| "join_space [q] = q"
| "join_space (q # qs) = q @ '' '' @ join_space qs"

definition positive_words :: "string list" where
  "positive_words = [''best'', ''excellent'', ''great'', ''good'', ''recommended'',
     ''strong'', ''leading'', ''top'', ''superior'', ''outstanding'']"

definition negative_words :: "string list" where
  "negative_words = [''poor'', ''bad'', ''worst'', ''avoid'', ''limited'',
     ''weak'', ''lacking'', ''disappointing'', ''issues'']"

definition estimate_sentiment :: "string list \<Rightarrow> string" where
  "estimate_sentiment quotes =
     (if quotes = [] then ''neutral''
      else
        (let text = lower (join_space quotes);
             positive_count = length (filter (\<lambda>word. py_contains text word) positive_words);
             negative_count = length (filter (\<lambda>word. py_contains text word) negative_words)
         in if positive_count > negative_count * 2 then ''positive''
            else if negative_count > positive_count * 2 then ''negative''
            else ''neutral''))"

text \<open>
  \<open>extract_themes\<close>. \<open>brand_themes[b]\<close> is a \<open>defaultdict\<close> from attribute to
  \<open>{'count': n, 'quotes': qs}\<close>, here the pair \<open>(n, qs)\<close>; reading a missing
  attribute gives \<open>(0, [])\<close>. One matching attribute in one context:
\<close>

definition note_attribute ::
  "(string \<times> nat \<times> string list) list \<Rightarrow> string \<Rightarrow> string \<Rightarrow> (string \<times> nat \<times> string list) list" where
  "note_attribute themes attr context =
     (let (n, quotes) = (case map_of themes attr of None \<Rightarrow> (0, []) | Some d \<Rightarrow> d)
      in AList.update attr
           (n + 1, if length quotes < 5 then quotes @ [take 200 context] else quotes) themes)"

definition scan_context ::
  "(string \<times> nat \<times> string list) list \<Rightarrow> string \<Rightarrow> (string \<times> nat \<times> string list) list" where
  "scan_context themes context =
     (let context_lower = lower context
      in fold (\<lambda>attr th. if attribute_search attr context_lower
                          then note_attribute th attr context else th)
           ATTRIBUTES themes)"

text \<open>
  The loop over \<open>self.brands\<close> for one result: \<open>result.mentions[b]\<close> is read for every
  tracked brand, with no test that the key is there.
\<close>

fun scan_brands ::
  "QueryResult \<Rightarrow> string list \<Rightarrow> (string \<times> (string \<times> nat \<times> string list) list) list
     \<Rightarrow> py_error + (string \<times> (string \<times> nat \<times> string list) list) list" where
  "scan_brands r [] brand_themes = Inr brand_themes"
| "scan_brands r (b # bs) brand_themes =
     (case map_of (mentions r) b of
        None \<Rightarrow> Inl KeyError
      | Some m \<Rightarrow>
          if \<not> mentioned m then scan_brands r bs brand_themes
          else
            (case map_of brand_themes b of
               None \<Rightarrow> Inl KeyError
             | Some themes \<Rightarrow>
                 scan_brands r bs
                   (AList.update b
                      (fold (\<lambda>context th. scan_context th context)
                         (extract_brand_contexts (response r) b 150) themes)
                      brand_themes)))"

fun scan_results ::
  "string list \<Rightarrow> QueryResult list \<Rightarrow> (string \<times> (string \<times> nat \<times> string list) list) list
     \<Rightarrow> py_error + (string \<times> (string \<times> nat \<times> string list) list) list" where
  "scan_results bs [] brand_themes = Inr brand_themes"
| "scan_results bs (r # rs) brand_themes =
     bind_err (scan_brands r bs brand_themes) (scan_results bs rs)"

text \<open>\<open>sum(1 for r in results if r.mentions[b].mentioned)\<close>\<close>

fun count_mentioned :: "QueryResult list \<Rightarrow> string \<Rightarrow> py_error + nat" where
  "count_mentioned [] b = Inr 0"
| "count_mentioned (r # rs) b =
     (case map_of (mentions r) b of
        None \<Rightarrow> Inl KeyError
      | Some m \<Rightarrow>
          bind_err (count_mentioned rs b) (\<lambda>n. Inr (if mentioned m then n + 1 else n)))"

text \<open>The insights of one brand that was mentioned \<open>n_total\<close> times.\<close>

definition insights_of_brand ::
  "string \<Rightarrow> nat \<Rightarrow> (string \<times> nat \<times> string list) list \<Rightarrow> (string \<times> ThemeInsight) list" where
  "insights_of_brand b n_total themes =
     (if n_total = 0 then []
      else
        fold (\<lambda>(th, n, quotes) acc.
               if real n / real n_total > 0 then
                 AList.update th
                   \<lparr>theme = th, brand = b, frequency = real n / real n_total,
                    example_quotes = take 3 quotes, sentiment = estimate_sentiment quotes\<rparr> acc
               else acc)
          themes [])"

fun build_insights ::
  "string list \<Rightarrow> (string \<times> nat) list \<Rightarrow> (string \<times> (string \<times> nat \<times> string list) list) list
     \<Rightarrow> (string \<times> (string \<times> ThemeInsight) list) list
     \<Rightarrow> py_error + (string \<times> (string \<times> ThemeInsight) list) list" where
  "build_insights [] totals brand_themes insights = Inr insights"
| "build_insights (b # bs) totals brand_themes insights =
     (case (map_of totals b, map_of brand_themes b) of
        (Some n_total, Some themes) \<Rightarrow>
          build_insights bs totals brand_themes
            (AList.update b (insights_of_brand b n_total themes) insights)
      | _ \<Rightarrow> Inl KeyError)"

definition extract_themes ::
  "string list \<Rightarrow> QueryResult list \<Rightarrow> py_error + (string \<times> (string \<times> ThemeInsight) list) list" where
  "extract_themes bs rs =
     bind_err (scan_results bs rs (fold (\<lambda>b d. AList.update b [] d) bs []))
       (\<lambda>brand_themes.
          bind_err (map_err (\<lambda>b. bind_err (count_mentioned rs b) (\<lambda>n. Inr (b, n))) bs)
            (\<lambda>totals. build_insights bs totals brand_themes []))"

text \<open>
  \<open>generate_insights_text\<close>. The format \<open>{x:.0%}\<close> of a float is a parameter of the
  model, \<open>pct\<close>; the three f-strings are spelled out.
\<close>

definition ownership_message :: "(real \<Rightarrow> string) \<Rightarrow> NarrativeAnalysis \<Rightarrow> real \<Rightarrow> string" where
  "ownership_message pct n your_score =
     [CHR 0xE2, CHR 0x9C, CHR 0x85] @ '' **'' @ attribute n @ ''**: You own this narrative ''
       @ ''('' @ pct your_score @ '' association rate)''"

definition dominated_message ::
  "(real \<Rightarrow> string) \<Rightarrow> NarrativeAnalysis \<Rightarrow> real \<Rightarrow> real \<Rightarrow> string" where
  "dominated_message pct n your_score gap =
     [CHR 0xE2, CHR 0x9A, CHR 0xA0, CHR 0xEF, CHR 0xB8, CHR 0x8F] @ '' **'' @ attribute n
       @ ''**: '' @ leader n @ '' dominates ''
       @ ''('' @ pct (leader_score n) @ '' vs your '' @ pct your_score @ ''). ''
       @ ''Gap: '' @ pct gap"

definition opportunity_message :: "(real \<Rightarrow> string) \<Rightarrow> NarrativeAnalysis \<Rightarrow> real \<Rightarrow> string" where
  "opportunity_message pct n your_score =
     [CHR 0xF0, CHR 0x9F, CHR 0x8E, CHR 0xAF] @ '' **'' @ attribute n
       @ ''**: Opportunity to own this narrative. ''
       @ ''Current leader '' @ leader n @ '' at '' @ pct (leader_score n) @ '', ''
       @ ''you at '' @ pct your_score"

text \<open>The loop over the narratives, \<open>insights\<close> being the list it appends to.\<close>

fun insights_loop ::
  "(real \<Rightarrow> string) \<Rightarrow> string \<Rightarrow> NarrativeAnalysis list \<Rightarrow> string list \<Rightarrow> py_error + string list" where
  "insights_loop pct your_brand [] insights = Inr insights"
| "insights_loop pct your_brand (n # ns) insights =
     (case map_of (brand_ownership n) your_brand of
        None \<Rightarrow> insights_loop pct your_brand ns insights
      | Some your_score \<Rightarrow>
          (case map_of (gap_analysis n) your_brand of
             None \<Rightarrow> Inl KeyError
           | Some gap \<Rightarrow>
               if leader n = your_brand then
                 insights_loop pct your_brand ns (insights @ [ownership_message pct n your_score])
               else if gap > 15 / 100 then
                 insights_loop pct your_brand ns
                   (insights @ [dominated_message pct n your_score gap])
               else if gap > 5 / 100 \<and> leader_score n < 50 / 100 then
                 insights_loop pct your_brand ns
                   (insights @ [opportunity_message pct n your_score])
               else insights_loop pct your_brand ns insights))"

definition generate_insights_text ::
  "(real \<Rightarrow> string) \<Rightarrow> NarrativeAnalysis list \<Rightarrow> string \<Rightarrow> py_error + string list" where
  "generate_insights_text pct narratives your_brand =
     bind_err (insights_loop pct your_brand narratives []) (\<lambda>insights. Inr (take 5 insights))"

text \<open>
  The yardstick for \<open>generate_insights_text\<close>: the three kinds of insight, and the kind
  of a narrative in which the brand takes part, decided in priority order from whether
  the brand leads, its gap and the leader's score.
\<close>

datatype insight_kind = Ownership | Dominated | Opportunity

definition insight_kind_of :: "bool \<Rightarrow> real \<Rightarrow> real \<Rightarrow> insight_kind option" where
  "insight_kind_of is_leader gap lead_score =
     (if is_leader then Some Ownership
      else if gap > 15 / 100 then Some Dominated
      else if gap > 5 / 100 \<and> lead_score < 50 / 100 then Some Opportunity
      else None)"

fun insight_message ::
  "(real \<Rightarrow> string) \<Rightarrow> NarrativeAnalysis \<Rightarrow> real \<Rightarrow> real \<Rightarrow> insight_kind \<Rightarrow> string" where
  "insight_message pct n your_score gap Ownership = ownership_message pct n your_score"
| "insight_message pct n your_score gap Dominated = dominated_message pct n your_score gap"
| "insight_message pct n your_score gap Opportunity = opportunity_message pct n your_score"

text \<open>
  The insight of one narrative for the brand: none where the brand does not take part
  (it is not a key of \<open>brand_ownership\<close>), else the message of its kind, if it has one.
\<close>

definition narrative_insight ::
  "(real \<Rightarrow> string) \<Rightarrow> string \<Rightarrow> NarrativeAnalysis \<Rightarrow> string option" where
  "narrative_insight pct your_brand n =
     (case (map_of (brand_ownership n) your_brand, map_of (gap_analysis n) your_brand) of
        (Some your_score, Some gap) \<Rightarrow>
          map_option (insight_message pct n your_score gap)
            (insight_kind_of (leader n = your_brand) gap (leader_score n))
      | _ \<Rightarrow> None)"

section \<open>StorageManager (storage.py) and the to_dict methods (models.py)\<close>

text \<open>
  A JSON document as \<open>json.dump\<close> writes and \<open>json.load\<close> reads it; the text between
  the two is not modelled, the document read is the document written.
\<close>

datatype json =
  JNull | JBool bool | JInt int | JStr string | JList "json list" | JObj "(string \<times> json) list"

text \<open>\<open>BrandMention.to_dict\<close> (\<open>asdict\<close>) and \<open>QueryResult.to_dict\<close>.\<close>

definition BrandMention_to_dict :: "BrandMention \<Rightarrow> json" where
  "BrandMention_to_dict m =
     JObj [(''mentioned'', JBool (mentioned m)),
           (''first_position'', (case first_position m of None \<Rightarrow> JNull | Some p \<Rightarrow> JInt p)),
           (''count'', JInt (count m))]"

definition QueryResult_to_dict :: "QueryResult \<Rightarrow> json" where
  "QueryResult_to_dict r =
     JObj [(''timestamp'', JStr (timestamp r)),
           (''category'', JStr (category r)),
           (''query'', JStr (query r)),
           (''run'', JInt (run r)),
           (''model'', JStr (model r)),
           (''provider'', JStr (provider r)),
           (''response'', JStr (response r)),
           (''mentions'', JObj (map (\<lambda>(k, v). (k, BrandMention_to_dict v)) (mentions r))),
           (''mention_order'', JList (map JStr (mention_order r))),
           (''total_mentioned'', JInt (total_mentioned r))]"

text \<open>
  Reading a document back. \<open>item[k]\<close> raises \<open>KeyError\<close> on a missing key. The records
  are typed, so a value of another JSON type than the field's has no counterpart here:
  the model reports it as \<open>TypeError\<close>, where Python would store it as it is.
\<close>

definition get_item :: "json \<Rightarrow> string \<Rightarrow> py_error + json" where
  "get_item j k =
     (case j of
        JObj kvs \<Rightarrow> (case map_of kvs k of None \<Rightarrow> Inl KeyError | Some v \<Rightarrow> Inr v)
      | _ \<Rightarrow> Inl TypeError)"

fun as_str :: "json \<Rightarrow> py_error + string" where
  "as_str (JStr s) = Inr s"
| "as_str _ = Inl TypeError"

fun as_int :: "json \<Rightarrow> py_error + int" where
  "as_int (JInt i) = Inr i"
| "as_int _ = Inl TypeError"

fun as_bool :: "json \<Rightarrow> py_error + bool" where
  "as_bool (JBool b) = Inr b"
| "as_bool _ = Inl TypeError"

fun as_opt_int :: "json \<Rightarrow> py_error + int option" where
  "as_opt_int JNull = Inr None"
| "as_opt_int (JInt i) = Inr (Some i)"
| "as_opt_int _ = Inl TypeError"

fun as_str_list :: "json \<Rightarrow> py_error + string list" where
  "as_str_list (JList js) = map_err as_str js"
| "as_str_list _ = Inl TypeError"

text \<open>
  \<open>BrandMention(**mention_data)\<close>: the keywords must be exactly the three fields, else
  the constructor raises \<open>TypeError\<close>.
\<close>

definition BrandMention_from_dict :: "json \<Rightarrow> py_error + BrandMention" where
  "BrandMention_from_dict d =
     (case d of
        JObj kvs \<Rightarrow>
          if set (map fst kvs) = {''mentioned'', ''first_position'', ''count''} then
            bind_err (bind_err (get_item d ''mentioned'') as_bool) (\<lambda>me.
            bind_err (bind_err (get_item d ''first_position'') as_opt_int) (\<lambda>fp.
            bind_err (bind_err (get_item d ''count'') as_int) (\<lambda>c.
            Inr \<lparr>mentioned = me, first_position = fp, count = c\<rparr>)))
          else Inl TypeError
      | _ \<Rightarrow> Inl TypeError)"

text \<open>The dict comprehension over \<open>item['mentions'].items()\<close>.\<close>

definition mentions_from_json :: "json \<Rightarrow> py_error + (string \<times> BrandMention) list" where
  "mentions_from_json j =
     (case j of
        JObj kvs \<Rightarrow>
          map_err (\<lambda>(b, d). bind_err (BrandMention_from_dict d) (\<lambda>m. Inr (b, m))) kvs
      | _ \<Rightarrow> Inl AttributeError)"

text \<open>The body of the loop of \<open>load_results\<close>: one item back to a \<open>QueryResult\<close>.\<close>

definition QueryResult_from_item :: "json \<Rightarrow> py_error + QueryResult" where
  "QueryResult_from_item item =
     bind_err (bind_err (get_item item ''mentions'') mentions_from_json) (\<lambda>ms.
     bind_err (bind_err (get_item item ''timestamp'') as_str) (\<lambda>ts.
     bind_err (bind_err (get_item item ''category'') as_str) (\<lambda>ca.
     bind_err (bind_err (get_item item ''query'') as_str) (\<lambda>qu.
     bind_err (bind_err (get_item item ''run'') as_int) (\<lambda>ru.
     bind_err (bind_err (get_item item ''model'') as_str) (\<lambda>mo.
     bind_err (bind_err (get_item item ''provider'') as_str) (\<lambda>pr.
     bind_err (bind_err (get_item item ''response'') as_str) (\<lambda>re.
     bind_err (bind_err (get_item item ''mention_order'') as_str_list) (\<lambda>mord.
     bind_err (bind_err (get_item item ''total_mentioned'') as_int) (\<lambda>tm.
     Inr \<lparr>timestamp = ts, category = ca, query = qu, run = ru, model = mo, provider = pr,
          response = re, mentions = ms, mention_order = mord, total_mentioned = tm\<rparr>))))))))))"

text \<open>
  The directory \<open>data_dir\<close>: its files by name, the most recently modified first. A
  file holds a JSON document or the rows of the history CSV (each row a dict);
  what pandas writes and reads back as CSV text is not modelled.
\<close>

datatype file_content = JsonFile json | CsvFile "(string \<times> pyval) list list"

definition DATA_DIR :: string where
  "DATA_DIR = ''data''"

definition HISTORY_FILE :: string where
  "HISTORY_FILE = ''som_history.csv''"

definition write_file ::
  "(string \<times> file_content) list \<Rightarrow> string \<Rightarrow> file_content \<Rightarrow> (string \<times> file_content) list" where
  "write_file st name c = (name, c) # filter (\<lambda>(n, _). n \<noteq> name) st"

text \<open>The names \<open>data_dir.glob("som_results_*.json")\<close> yields.\<close>

definition is_results_file :: "string \<Rightarrow> bool" where
  "is_results_file name =
     (length ''som_results_'' + length ''.json'' \<le> length name
      \<and> startswith name ''som_results_''
      \<and> drop (length name - length ''.json'') name = ''.json'')"

text \<open>The rows \<open>_update_history\<close> builds, one per result and brand of its mentions.\<close>

definition history_rows :: "QueryResult list \<Rightarrow> (string \<times> pyval) list list" where
  "history_rows rs =
     concat (map (\<lambda>r. map (\<lambda>(b, m).
        [(''timestamp'', PStr (timestamp r)),
         (''date'', PStr (takeWhile (\<lambda>c. c \<noteq> CHR ''T'') (timestamp r))),
         (''provider'', PStr (provider r)),
         (''model'', PStr (model r)),
         (''category'', PStr (category r)),
         (''query'', PStr (query r)),
         (''run'', PInt (run r)),
         (''brand'', PStr b),
         (''mentioned'', PBool (mentioned m)),
         (''first_position'', (case first_position m of None \<Rightarrow> PNone | Some p \<Rightarrow> PInt p)),
         (''count'', PInt (count m)),
         (''in_mention_order'', PBool (b \<in> set (mention_order r))),
         (''mention_rank'',
            (if b \<in> set (mention_order r) then PInt (int (index_of (mention_order r) b) + 1)
             else PNone))]) (mentions r)) rs)"

text \<open>
  \<open>_update_history\<close>: the new rows are appended to those of the history file, if there
  is one. A history file that is not CSV gives \<open>PandasError\<close>: what \<open>pandas.read_csv\<close>
  makes of it is not modelled.
\<close>

definition update_history ::
  "(string \<times> file_content) list \<Rightarrow> QueryResult list \<Rightarrow> py_error + (string \<times> file_content) list" where
  "update_history st rs =
     (case map_of st HISTORY_FILE of
        None \<Rightarrow> Inr (write_file st HISTORY_FILE (CsvFile (history_rows rs)))
      | Some (CsvFile old) \<Rightarrow> Inr (write_file st HISTORY_FILE (CsvFile (old @ history_rows rs)))
      | Some (JsonFile _) \<Rightarrow> Inl PandasError)"

text \<open>The directories in which \<open>_update_history\<close> is modelled: no history file, or a CSV one.\<close>

definition history_readable :: "(string \<times> file_content) list \<Rightarrow> bool" where
  "history_readable st =
     (case map_of st HISTORY_FILE of Some (JsonFile _) \<Rightarrow> False | _ \<Rightarrow> True)"

text \<open>
  \<open>save_results\<close>; \<open>now\<close> is \<open>datetime.now().strftime("%Y%m%d_%H%M%S")\<close>. It returns
  the path written and the directory after the call.
\<close>

definition save_results ::
  "string \<Rightarrow> (string \<times> file_content) list \<Rightarrow> QueryResult list \<Rightarrow> string option
     \<Rightarrow> py_error + string \<times> (string \<times> file_content) list" where
  "save_results now st rs filename =
     (let fname = (case filename of None \<Rightarrow> ''som_results_'' @ now @ ''.json'' | Some f \<Rightarrow> f);
          results_dict = map QueryResult_to_dict rs;
          st1 = write_file st fname (JsonFile (JList results_dict))
      in bind_err (update_history st1 rs) (\<lambda>st2. Inr (DATA_DIR @ ''/'' @ fname, st2)))"

text \<open>\<open>load_results\<close>: without a name, the most recently modified results file.\<close>

definition read_results :: "file_content \<Rightarrow> py_error + QueryResult list" where
  "read_results c =
     (case c of
        CsvFile _ \<Rightarrow> Inl JSONDecodeError
      | JsonFile data \<Rightarrow>
          (case data of JList items \<Rightarrow> map_err QueryResult_from_item items | _ \<Rightarrow> Inl TypeError))"

definition load_results ::
  "(string \<times> file_content) list \<Rightarrow> string option \<Rightarrow> py_error + QueryResult list" where
  "load_results st filename =
     (case filename of
        None \<Rightarrow>
          (case filter (\<lambda>(n, _). is_results_file n) st of
             [] \<Rightarrow> Inr []
           | (n, c) # _ \<Rightarrow> read_results c)
      | Some f \<Rightarrow> (case map_of st f of None \<Rightarrow> Inr [] | Some c \<Rightarrow> read_results c))"

section \<open>Fixtures\<close>

text \<open>The two results of \<open>test_calculate_som_with_results\<close> (tests/test_monitor.py).\<close>

definition result1 :: QueryResult where
  "result1 =
     \<lparr>timestamp = ''2024-01-01T00:00:00'', category = ''general'', query = ''Test query 1'',
      run = 0, model = ''gpt-4o'', provider = ''openai'', response = ''OpenAI and Anthropic'',
      mentions = [(''OpenAI'', \<lparr>mentioned = True, first_position = Some 0, count = 1\<rparr>),
                  (''Anthropic'', \<lparr>mentioned = True, first_position = Some 10, count = 1\<rparr>)],
      mention_order = [''OpenAI'', ''Anthropic''], total_mentioned = 2\<rparr>"

definition result2 :: QueryResult where
  "result2 =
     \<lparr>timestamp = ''2024-01-01T00:00:01'', category = ''general'', query = ''Test query 2'',
      run = 0, model = ''gpt-4o'', provider = ''openai'', response = ''Anthropic is great'',
      mentions = [(''OpenAI'', \<lparr>mentioned = False, first_position = None, count = 0\<rparr>),
                  (''Anthropic'', \<lparr>mentioned = True, first_position = Some 0, count = 1\<rparr>)],
      mention_order = [''Anthropic''], total_mentioned = 1\<rparr>"

text \<open>A stale result: its mentions were recorded before \<open>Anthropic\<close> was tracked.\<close>

definition stale_result :: QueryResult where
  "stale_result =
     \<lparr>timestamp = ''2023-12-31T00:00:00'', category = ''general'', query = ''Test query 0'',
      run = 0, model = ''gpt-4o'', provider = ''openai'', response = ''OpenAI leads'',
      mentions = [(''OpenAI'', \<lparr>mentioned = True, first_position = Some 0, count = 1\<rparr>)],
      mention_order = [''OpenAI''], total_mentioned = 1\<rparr>"

text \<open>A result whose response names a brand next to two attributes.\<close>

definition themed_result :: QueryResult where
  "themed_result =
     \<lparr>timestamp = ''2024-01-01T00:00:00'', category = ''general'', query = ''Best network?'',
      run = 0, model = ''gpt-4o'', provider = ''openai'',
      response = ''Telekom: best 5G'',
      mentions = [(''Telekom'', \<lparr>mentioned = True, first_position = Some 0, count = 1\<rparr>)],
      mention_order = [''Telekom''], total_mentioned = 1\<rparr>"

text \<open>
  Four narratives seen from \<open>Telekom\<close>: one it leads, one it is no part of, one in which
  it is far behind, and a contested one.
\<close>

definition narrative_led :: NarrativeAnalysis where
  "narrative_led =
     \<lparr>attribute = ''Network Excellence'',
      brand_ownership = [(''Telekom'', 6 / 10), (''Vodafone'', 4 / 10)],
      leader = ''Telekom'', leader_score = 6 / 10,
      gap_analysis = [(''Telekom'', 0), (''Vodafone'', 2 / 10)],
      example_quotes = []\<rparr>"

definition narrative_other :: NarrativeAnalysis where
  "narrative_other =
     \<lparr>attribute = ''Global Reach'',
      brand_ownership = [(''Vodafone'', 3 / 10)],
      leader = ''Vodafone'', leader_score = 3 / 10,
      gap_analysis = [(''Vodafone'', 0)],
      example_quotes = []\<rparr>"

definition narrative_dominated :: NarrativeAnalysis where
  "narrative_dominated =
     \<lparr>attribute = ''Innovation'',
      brand_ownership = [(''Telekom'', 1 / 10), (''Vodafone'', 4 / 10)],
      leader = ''Vodafone'', leader_score = 4 / 10,
      gap_analysis = [(''Telekom'', 3 / 10), (''Vodafone'', 0)],
      example_quotes = []\<rparr>"

definition narrative_contested :: NarrativeAnalysis where
  "narrative_contested =
     \<lparr>attribute = ''Value Proposition'',
      brand_ownership = [(''Telekom'', 1 / 10), (''Vodafone'', 2 / 10)],
      leader = ''Vodafone'', leader_score = 2 / 10,
      gap_analysis = [(''Telekom'', 1 / 10), (''Vodafone'', 0)],
      example_quotes = []\<rparr>"

section \<open>Substring primitives agree with each other\<close>

lemma py_contains_iff: "py_contains t s \<longleftrightarrow> (\<exists>i. occurs_at t s i)"
proof (induction t)
  case Nil
  show ?case by (auto simp: occurs_at_def startswith_def)
next
  case (Cons c cs)
  show ?case
  proof
    assume "py_contains (c # cs) s"
    then consider "startswith (c # cs) s" | "py_contains cs s" by auto
    then show "\<exists>i. occurs_at (c # cs) s i"
    proof cases
      case 1
      then have "occurs_at (c # cs) s 0" by (simp add: occurs_at_def)
      then show ?thesis ..
    next
      case 2
      with Cons.IH obtain i where "occurs_at cs s i" by auto
      then have "occurs_at (c # cs) s (Suc i)" by (simp add: occurs_at_def)
      then show ?thesis ..
    qed
  next
    assume "\<exists>i. occurs_at (c # cs) s i"
    then obtain i where i: "occurs_at (c # cs) s i" ..
    show "py_contains (c # cs) s"
    proof (cases i)
      case 0
      with i show ?thesis by (simp add: occurs_at_def)
    next
      case (Suc j)
      with i have "occurs_at cs s j" by (simp add: occurs_at_def)
      with Cons.IH show ?thesis by auto
    qed
  qed
qed

lemma find_from_absent: "\<not> py_contains t s \<Longrightarrow> find_from i t s = - 1"
  by (induction t arbitrary: i) auto

lemma find_from_first:
  "py_contains t s \<Longrightarrow>
   \<exists>k. find_from i t s = int (i + k) \<and> occurs_at t s k \<and> (\<forall>j<k. \<not> occurs_at t s j)"
proof (induction t arbitrary: i)
  case Nil
  then show ?case by (auto simp: occurs_at_def startswith_def)
next
  case (Cons c cs)
  show ?case
  proof (cases "startswith (c # cs) s")
    case True
    then have "find_from i (c # cs) s = int (i + 0) \<and> occurs_at (c # cs) s 0"
      by (simp add: occurs_at_def)
    then show ?thesis by blast
  next
    case False
    with Cons.prems have "py_contains cs s" by simp
    from Cons.IH [OF this, of "Suc i"] obtain k where
      k: "find_from (Suc i) cs s = int (Suc i + k)" "occurs_at cs s k"
         "\<forall>j<k. \<not> occurs_at cs s j" by blast
    have "find_from i (c # cs) s = int (i + Suc k)" using False k(1) by simp
    moreover have "occurs_at (c # cs) s (Suc k)" using k(2) by (simp add: occurs_at_def)
    moreover have "\<forall>j<Suc k. \<not> occurs_at (c # cs) s j"
    proof (intro allI impI)
      fix j assume "j < Suc k"
      show "\<not> occurs_at (c # cs) s j"
      proof (cases j)
        case 0
        with False show ?thesis by (simp add: occurs_at_def)
      next
        case (Suc j')
        with \<open>j < Suc k\<close> k(3) show ?thesis by (simp add: occurs_at_def)
      qed
    qed
    ultimately show ?thesis by blast
  qed
qed

lemma startswith_length: "startswith t s \<Longrightarrow> length s \<le> length t"
proof -
  assume "startswith t s"
  then have "take (length s) t = s" by (simp only: startswith_def)
  from arg_cong [OF this, of length] show ?thesis by simp
qed

lemma occurs_at_length: "occurs_at t s i \<Longrightarrow> length s \<le> length t"
proof -
  assume "occurs_at t s i"
  then have "startswith (drop i t) s" by (simp only: occurs_at_def)
  from startswith_length [OF this] show ?thesis by simp
qed

lemma count_from_pos:
  "s \<noteq> [] \<Longrightarrow> py_contains t s \<Longrightarrow> 0 < count_from t s"
proof (induction t)
  case Nil
  then show ?case by simp
next
  case (Cons c cs)
  show ?case
  proof (cases "startswith (c # cs) s")
    case True
    from startswith_length [OF True] have "\<not> length (c # cs) < length s" by simp
    with True Cons.prems(1) have "count_from (c # cs) s = Suc (count_from (drop (length s) (c # cs)) s)"
      by (subst count_from.simps) (simp only: if_False if_True simp_thms)
    then show ?thesis by simp
  next
    case False
    with Cons.prems have c: "py_contains cs s" by simp
    then obtain i where "occurs_at cs s i" using py_contains_iff by blast
    from occurs_at_length [OF this] have "\<not> length (c # cs) < length s" by simp
    with False Cons.prems(1) have "count_from (c # cs) s = count_from cs s"
      by (subst count_from.simps) (simp only: if_False simp_thms list.sel)
    with Cons.IH [OF Cons.prems(1) c] show ?thesis by simp
  qed
qed

lemma count_from_absent: "\<not> py_contains t s \<Longrightarrow> count_from t s = 0"
proof (induction t)
  case Nil
  show ?case by (subst count_from.simps) simp
next
  case (Cons c cs)
  then have ns: "\<not> startswith (c # cs) s" and "count_from cs s = 0" by simp_all
  then show ?case by (subst count_from.simps) (simp only: if_False list.sel simp_thms if_cancel)
qed

lemma py_count_pos_iff: "0 < py_count t s \<longleftrightarrow> py_contains t s"
proof (cases "s = []")
  case True
  have "occurs_at t [] 0" by (simp add: occurs_at_def startswith_def)
  then have "py_contains t []" using py_contains_iff by blast
  with True show ?thesis by (simp add: py_count_def)
next
  case False
  show ?thesis
  proof (cases "py_contains t s")
    case True
    with False show ?thesis using count_from_pos [of s t] by (simp add: py_count_def)
  next
    case c: False
    with False show ?thesis using count_from_absent [of t s] by (simp add: py_count_def)
  qed
qed

lemma map_of_fold_update:
  "map_of (fold (\<lambda>b m. AList.update b (f b) m) bs acc) k =
     (if k \<in> set bs then Some (f k) else map_of acc k)"
  by (induction bs arbitrary: acc) (auto simp: update_conv)

lemma extract_mentions_lookup:
  "map_of (extract_mentions brands t) b =
     (if b \<in> set brands then Some (mention_of (lower t) b) else None)"
  by (simp add: extract_mentions_def map_of_fold_update)

section \<open>ResponseAnalyzer.extract_mentions\<close>

lemma lower_length [simp]: "length (lower s) = length s"
  by (simp add: lower_def)

lemma lower_Nil [simp]: "lower [] = []"
  by (simp add: lower_def)

text \<open>
  Claim C1. For every tracked brand \<open>b\<close> and text \<open>t\<close>, \<open>extract_mentions\<close> has an entry
  for \<open>b\<close>; it is mentioned iff the count of the lower-cased brand in the lower-cased
  text is positive; when mentioned, \<open>count\<close> is that count and \<open>first_position\<close> is the
  least offset at which the lower-cased brand occurs in the lower-cased text; when not
  mentioned, \<open>first_position\<close> is \<open>None\<close> and \<open>count\<close> is 0. So \<open>mentioned\<close>,
  \<open>count > 0\<close> and \<open>first_position is not None\<close> agree.
\<close>

theorem extract_mentions_brand_mention:
  assumes "b \<in> set brands"
  shows "\<exists>m. map_of (extract_mentions brands t) b = Some m
     \<and> (mentioned m \<longleftrightarrow> 0 < py_count (lower t) (lower b))
     \<and> (mentioned m \<longrightarrow> count m = py_count (lower t) (lower b)
          \<and> (\<exists>k. first_position m = Some (int k) \<and> occurs_at (lower t) (lower b) k
                 \<and> (\<forall>j<k. \<not> occurs_at (lower t) (lower b) j)))
     \<and> (\<not> mentioned m \<longrightarrow> first_position m = None \<and> count m = 0)
     \<and> (mentioned m \<longleftrightarrow> 0 < count m)
     \<and> (mentioned m \<longleftrightarrow> first_position m \<noteq> None)"
proof (cases "py_contains (lower t) (lower b)")
  case True
  from find_from_first [OF True, of 0] obtain k where
    k: "py_find (lower t) (lower b) = int k" "occurs_at (lower t) (lower b) k"
       "\<forall>j<k. \<not> occurs_at (lower t) (lower b) j"
    by (auto simp: py_find_def)
  have pos: "0 < py_count (lower t) (lower b)" using True by (simp add: py_count_pos_iff)
  have m: "mention_of (lower t) b =
     \<lparr>mentioned = True, first_position = Some (int k), count = py_count (lower t) (lower b)\<rparr>"
    using True k(1) by (simp add: mention_of_def)
  show ?thesis
    using assms pos k(2,3) by (simp add: extract_mentions_lookup m)
next
  case False
  then have z: "\<not> 0 < py_count (lower t) (lower b)" by (simp add: py_count_pos_iff)
  have m: "mention_of (lower t) b = \<lparr>mentioned = False, first_position = None, count = 0\<rparr>"
    using False by (simp add: mention_of_def)
  show ?thesis
    using assms z by (simp add: extract_mentions_lookup m)
qed

theorem extract_mentions_brand_mention_witness:
  "''OpenAI'' \<in> set [''OpenAI'', ''Google'']
   \<and> (\<exists>m. map_of (extract_mentions [''OpenAI'', ''Google''] ''Ask openai or OPENAI'') ''OpenAI''
            = Some m
        \<and> mentioned m \<and> first_position m = Some 4 \<and> count m = 2
        \<and> 0 < py_count (lower ''Ask openai or OPENAI'') (lower ''OpenAI''))"
proof -
  let ?bs = "[''OpenAI'', ''Google'']" and ?t = "''Ask openai or OPENAI''"
  let ?v = "\<lparr>mentioned = True, first_position = Some 4, count = 2\<rparr>"
  have h: "''OpenAI'' \<in> set ?bs" by simp
  have v: "map_of (extract_mentions ?bs ?t) ''OpenAI'' = Some ?v" by code_simp
  from extract_mentions_brand_mention [OF h, of ?t] obtain m where
    m: "map_of (extract_mentions ?bs ?t) ''OpenAI'' = Some m"
    and iff: "mentioned m \<longleftrightarrow> 0 < py_count (lower ?t) (lower ''OpenAI'')"
    by blast
  from m v have "m = ?v" by (simp only: option.inject)
  with iff have "0 < py_count (lower ?t) (lower ''OpenAI'')" by simp
  with h v show ?thesis by (intro conjI exI [of _ ?v]) (simp_all only: simp_thms BrandMention.simps)
qed

text \<open>
  Claim C4, as the spec states it, fails: the empty brand name is reported as mentioned.
  For the text \<open>abc\<close> the entry of the brand \<open>""\<close> is mentioned at position 0 with
  count 4, not the unmentioned entry.
\<close>

theorem empty_brand_counterexample:
  "map_of (extract_mentions [''''] ''abc'') ''''
     = Some \<lparr>mentioned = True, first_position = Some 0, count = 4\<rparr>
   \<and> map_of (extract_mentions [''''] ''abc'') ''''
     \<noteq> Some \<lparr>mentioned = False, first_position = None, count = 0\<rparr>"
proof -
  have "map_of (extract_mentions [''''] ''abc'') ''''
     = Some \<lparr>mentioned = True, first_position = Some 0, count = 4\<rparr>"
    by code_simp
  then show ?thesis by simp
qed

text \<open>
  Claim C4, amended. If the tracked brand list contains the empty brand name, then for
  every text \<open>t\<close> \<open>extract_mentions\<close> reports that brand as mentioned, at position 0,
  with count \<open>len(t.lower()) + 1\<close>: the empty brand name matches every text.
\<close>

theorem empty_brand_always_mentioned:
  assumes "[] \<in> set brands"
  shows "map_of (extract_mentions brands t) [] =
     Some \<lparr>mentioned = True, first_position = Some 0, count = int (length (lower t)) + 1\<rparr>"
proof -
  have "occurs_at (lower t) [] 0" by (simp add: occurs_at_def startswith_def)
  then have c: "py_contains (lower t) []" using py_contains_iff by blast
  have f: "py_find (lower t) [] = 0"
    by (cases "lower t") (simp_all add: py_find_def startswith_def)
  show ?thesis using assms c f
    by (simp add: extract_mentions_lookup mention_of_def py_count_def)
qed

theorem empty_brand_always_mentioned_witness:
  "[] \<in> set [''Telekom'', []]
   \<and> map_of (extract_mentions [''Telekom'', []] ''O2 is cheap'') [] =
       Some \<lparr>mentioned = True, first_position = Some 0,
             count = int (length (lower ''O2 is cheap'')) + 1\<rparr>"
proof -
  have h: "[] \<in> set [''Telekom'', []]" by simp
  from h empty_brand_always_mentioned [OF h, of "''O2 is cheap''"] show ?thesis
    by (rule conjI)
qed

section \<open>SOMMonitor.calculate_som\<close>

lemma calculate_som_lookup:
  "rs \<noteq> [] \<Longrightarrow>
   map_of (calculate_som bs rs) b = (if b \<in> set bs then Some (som_for_brand rs b) else None)"
  by (simp add: calculate_som_def map_of_fold_update)

lemma mention_rate_som_for_brand:
  "mention_rate (som_for_brand rs b) =
     real (length (filter (\<lambda>r. is_mentioned r b) rs)) / real (length rs)"
  by (simp add: som_for_brand_def Let_def)

lemma first_mention_rate_som_for_brand:
  "first_mention_rate (som_for_brand rs b) =
     real (length (filter (\<lambda>r. is_first_mention r b) rs)) / real (length rs)"
  by (simp add: som_for_brand_def Let_def)

lemma missing_brand_not_mentioned:
  "map_of (mentions r) A = None \<Longrightarrow> \<not> is_mentioned r A"
  by (simp add: is_mentioned_def)

lemma length_filter_mono:
  "(\<And>x. x \<in> set xs \<Longrightarrow> P x \<Longrightarrow> Q x) \<Longrightarrow> length (filter P xs) \<le> length (filter Q xs)"
  by (induction xs) auto



text \<open>
  Claim C9. For a non-empty list of results in each of which \<open>mention_order\<close> holds
  exactly the brands whose mention is recorded with \<open>mentioned\<close> true, \<open>calculate_som\<close>
  gives every tracked brand a \<open>first_mention_rate\<close> that is at most its \<open>mention_rate\<close>,
  and both rates lie between 0 and 1.
\<close>

theorem first_mention_rate_le_mention_rate:
  assumes "rs \<noteq> []" and "b \<in> set bs"
    and inv: "\<forall>r \<in> set rs. set (mention_order r) = {x. is_mentioned r x}"
  shows "\<exists>s. map_of (calculate_som bs rs) b = Some s
     \<and> first_mention_rate s \<le> mention_rate s
     \<and> 0 \<le> first_mention_rate s \<and> first_mention_rate s \<le> 1
     \<and> 0 \<le> mention_rate s \<and> mention_rate s \<le> 1"
proof -
  let ?f = "length (filter (\<lambda>r. is_first_mention r b) rs)"
  let ?m = "length (filter (\<lambda>r. is_mentioned r b) rs)"
  have n: "0 < length rs" using assms(1) by simp
  have "is_mentioned r b" if "r \<in> set rs" "is_first_mention r b" for r
  proof -
    from that(2) have "b \<in> set (mention_order r)"
      by (auto simp: is_first_mention_def split: list.splits)
    with inv that(1) show ?thesis by auto
  qed
  then have fm: "?f \<le> ?m" by (rule length_filter_mono)
  have mn: "?m \<le> length rs" by simp
  have look: "map_of (calculate_som bs rs) b = Some (som_for_brand rs b)"
    using assms(1,2) by (simp add: calculate_som_lookup)
  have 1: "real ?f / real (length rs) \<le> real ?m / real (length rs)"
    using fm n by (simp add: divide_right_mono)
  have 2: "real ?m / real (length rs) \<le> 1" using mn n by simp
  have 3: "real ?f / real (length rs) \<le> 1" using fm mn n by simp
  show ?thesis
    using look 1 2 3
    by (simp add: mention_rate_som_for_brand first_mention_rate_som_for_brand)
qed

theorem first_mention_rate_le_mention_rate_witness:
  "[result1, result2] \<noteq> []
   \<and> ''OpenAI'' \<in> set [''OpenAI'', ''Anthropic'']
   \<and> set (mention_order result1) = {x. is_mentioned result1 x}
   \<and> set (mention_order result2) = {x. is_mentioned result2 x}
   \<and> (\<exists>s. map_of (calculate_som [''OpenAI'', ''Anthropic''] [result1, result2]) ''OpenAI'' = Some s
        \<and> first_mention_rate s \<le> mention_rate s \<and> mention_rate s \<le> 1)"
proof -
  let ?rs = "[result1, result2]" and ?bs = "[''OpenAI'', ''Anthropic'']"
  have h1: "?rs \<noteq> []" by simp
  have h2: "''OpenAI'' \<in> set ?bs" by simp
  have i1: "set (mention_order result1) = {x. is_mentioned result1 x}"
    by (auto simp: is_mentioned_def result1_def split: if_splits)
  have i2: "set (mention_order result2) = {x. is_mentioned result2 x}"
    by (auto simp: is_mentioned_def result2_def split: if_splits)
  from i1 i2 have h3: "\<forall>r \<in> set ?rs. set (mention_order r) = {x. is_mentioned r x}" by simp
  from first_mention_rate_le_mention_rate [OF h1 h2 h3] obtain s where
    "map_of (calculate_som ?bs ?rs) ''OpenAI'' = Some s"
    "first_mention_rate s \<le> mention_rate s" "mention_rate s \<le> 1"
    by blast
  then have "\<exists>s. map_of (calculate_som ?bs ?rs) ''OpenAI'' = Some s
        \<and> first_mention_rate s \<le> mention_rate s \<and> mention_rate s \<le> 1" by blast
  with h1 h2 i1 i2 show ?thesis by blast
qed

section \<open>ConfidenceCalculator.evaluate_data_quality\<close>

lemma quality_of_sample_size:
  "map_of (evaluate_data_quality n) ''quality'' =
     Some (PStr (if n < 30 then ''LOW'' else if n < 100 then ''MODERATE''
                 else if n < 300 then ''GOOD'' else ''EXCELLENT''))"
  by (simp add: evaluate_data_quality_def)

lemma recommendation_of_sample_size:
  "map_of (evaluate_data_quality n) ''recommendation'' =
     Some (PStr
       (if n < 30 then
          ''Collect '' @ str_int (30 - n) @ '' more samples for statistical significance''
        else if n < 100 then
          ''Consider '' @ str_int (100 - n) @ '' more samples for higher confidence''
        else if n < 300 then ''Sample size adequate for reliable insights''
        else ''Sample size excellent for high-confidence analysis''))"
  by (simp add: evaluate_data_quality_def)

text \<open>
  Claim C6. \<open>evaluate_data_quality\<close> grades every integer sample size \<open>n\<close> with exactly
  one of four grades: \<open>LOW\<close> iff \<open>n < 30\<close>, \<open>MODERATE\<close> iff \<open>30 \<le> n < 100\<close>, \<open>GOOD\<close> iff
  \<open>100 \<le> n < 300\<close>, \<open>EXCELLENT\<close> iff \<open>300 \<le> n\<close>; the recommendation is the string of
  that grade; and at the boundaries 29, 30, 100 and 300 the result is the \<open>LOW\<close>,
  \<open>MODERATE\<close>, \<open>GOOD\<close> and \<open>EXCELLENT\<close> dict with its colour, recommendation and icon.
\<close>

theorem evaluate_data_quality_thresholds:
  "(map_of (evaluate_data_quality n) ''quality'' = Some (PStr ''LOW'') \<longleftrightarrow> n < 30)
   \<and> (map_of (evaluate_data_quality n) ''quality'' = Some (PStr ''MODERATE'')
        \<longleftrightarrow> 30 \<le> n \<and> n < 100)
   \<and> (map_of (evaluate_data_quality n) ''quality'' = Some (PStr ''GOOD'')
        \<longleftrightarrow> 100 \<le> n \<and> n < 300)
   \<and> (map_of (evaluate_data_quality n) ''quality'' = Some (PStr ''EXCELLENT'') \<longleftrightarrow> 300 \<le> n)
   \<and> map_of (evaluate_data_quality n) ''recommendation'' =
       Some (PStr
         (if n < 30 then
            ''Collect '' @ str_int (30 - n) @ '' more samples for statistical significance''
          else if n < 100 then
            ''Consider '' @ str_int (100 - n) @ '' more samples for higher confidence''
          else if n < 300 then ''Sample size adequate for reliable insights''
          else ''Sample size excellent for high-confidence analysis''))
   \<and> evaluate_data_quality 29 =
       [(''quality'', PStr ''LOW''), (''color'', PStr ''#f44336''),
        (''recommendation'', PStr ''Collect 1 more samples for statistical significance''),
        (''icon'', PStr icon_warning), (''sample_size'', PInt 29)]
   \<and> evaluate_data_quality 30 =
       [(''quality'', PStr ''MODERATE''), (''color'', PStr ''#ff9800''),
        (''recommendation'', PStr ''Consider 70 more samples for higher confidence''),
        (''icon'', PStr icon_bolt), (''sample_size'', PInt 30)]
   \<and> evaluate_data_quality 100 =
       [(''quality'', PStr ''GOOD''), (''color'', PStr ''#4caf50''),
        (''recommendation'', PStr ''Sample size adequate for reliable insights''),
        (''icon'', PStr icon_check), (''sample_size'', PInt 100)]
   \<and> evaluate_data_quality 300 =
       [(''quality'', PStr ''EXCELLENT''), (''color'', PStr ''#2196f3''),
        (''recommendation'', PStr ''Sample size excellent for high-confidence analysis''),
        (''icon'', PStr icon_star), (''sample_size'', PInt 300)]"
proof (intro conjI)
  show "map_of (evaluate_data_quality n) ''quality'' = Some (PStr ''LOW'') \<longleftrightarrow> n < 30"
    by (simp add: quality_of_sample_size)
  show "map_of (evaluate_data_quality n) ''quality'' = Some (PStr ''MODERATE'')
        \<longleftrightarrow> 30 \<le> n \<and> n < 100"
    by (simp add: quality_of_sample_size)
  show "map_of (evaluate_data_quality n) ''quality'' = Some (PStr ''GOOD'')
        \<longleftrightarrow> 100 \<le> n \<and> n < 300"
    by (simp add: quality_of_sample_size)
  show "map_of (evaluate_data_quality n) ''quality'' = Some (PStr ''EXCELLENT'') \<longleftrightarrow> 300 \<le> n"
    by (simp add: quality_of_sample_size)
  show "map_of (evaluate_data_quality n) ''recommendation'' =
       Some (PStr
         (if n < 30 then
            ''Collect '' @ str_int (30 - n) @ '' more samples for statistical significance''
          else if n < 100 then
            ''Consider '' @ str_int (100 - n) @ '' more samples for higher confidence''
          else if n < 300 then ''Sample size adequate for reliable insights''
          else ''Sample size excellent for high-confidence analysis''))"
    by (rule recommendation_of_sample_size)
  show "evaluate_data_quality 29 =
       [(''quality'', PStr ''LOW''), (''color'', PStr ''#f44336''),
        (''recommendation'', PStr ''Collect 1 more samples for statistical significance''),
        (''icon'', PStr icon_warning), (''sample_size'', PInt 29)]"
    by code_simp
  show "evaluate_data_quality 30 =
       [(''quality'', PStr ''MODERATE''), (''color'', PStr ''#ff9800''),
        (''recommendation'', PStr ''Consider 70 more samples for higher confidence''),
        (''icon'', PStr icon_bolt), (''sample_size'', PInt 30)]"
    by code_simp
  show "evaluate_data_quality 100 =
       [(''quality'', PStr ''GOOD''), (''color'', PStr ''#4caf50''),
        (''recommendation'', PStr ''Sample size adequate for reliable insights''),
        (''icon'', PStr icon_check), (''sample_size'', PInt 100)]"
    by code_simp
  show "evaluate_data_quality 300 =
       [(''quality'', PStr ''EXCELLENT''), (''color'', PStr ''#2196f3''),
        (''recommendation'', PStr ''Sample size excellent for high-confidence analysis''),
        (''icon'', PStr icon_star), (''sample_size'', PInt 300)]"
    by code_simp
qed

section \<open>The Wilson interval in exact arithmetic\<close>

text \<open>
  Claim C2 in exact arithmetic: the estimate lies within the margin of the centre, so
  \<open>0 \<le> lower_bound \<le> value \<le> upper_bound \<le> 1\<close>, and with no trials every field is
  zero. The first half does not carry over to the rounded computation. For
  \<open>successes = 0\<close> the centre and the margin are the same real number, computed along
  two different paths, and the code clamps their difference to \<open>[0, 1]\<close> but not to
  the estimate: in double precision \<open>successes = 0, total = 3\<close> at the 95 percent level
  gives \<open>lower_bound = 5.55e-17\<close> above \<open>value = 0.0\<close>, and \<open>successes = total = 10\<close>
  gives \<open>upper_bound = 0.9999999999999999\<close> below \<open>value = 1.0\<close>.
\<close>

lemma wilson_margin_covers:
  fixes p z n :: real
  assumes p: "0 \<le> p" "p \<le> 1" and z: "0 \<le> z" and n: "0 < n"
  defines "d \<equiv> 1 + z\<^sup>2 / n"
  defines "c \<equiv> (p + z\<^sup>2 / (2 * n)) / d"
  defines "m \<equiv> z * sqrt ((p * (1 - p) + z\<^sup>2 / (4 * n)) / n) / d"
  shows "c - m \<le> p" and "p \<le> c + m"
proof -
  have d: "0 < d" using n by (simp add: d_def add_pos_nonneg)
  let ?q = "(p * (1 - p) + z\<^sup>2 / (4 * n)) / n"
  let ?x = "z / n * (p - 1 / 2)"
  have pq: "0 \<le> p * (1 - p)" using p by simp
  have diff: "?q - ?x\<^sup>2 = p * (1 - p) / n + z\<^sup>2 * (p * (1 - p)) / n\<^sup>2"
    using n by (simp add: field_simps power2_eq_square)
  have t1: "0 \<le> p * (1 - p) / n"
    using n by (intro divide_nonneg_nonneg pq) simp
  have t2: "0 \<le> z\<^sup>2 * (p * (1 - p)) / n\<^sup>2"
    by (intro divide_nonneg_nonneg mult_nonneg_nonneg pq) simp_all
  from diff t1 t2 have sq: "?x\<^sup>2 \<le> ?q" by linarith
  have "\<bar>?x\<bar>\<^sup>2 \<le> ?q" using sq by (simp only: power2_abs)
  then have "\<bar>?x\<bar> \<le> sqrt ?q" by (rule real_le_rsqrt)
  then have "z * \<bar>?x\<bar> \<le> z * sqrt ?q" using z by (rule mult_left_mono)
  moreover have "\<bar>z * ?x\<bar> = z * \<bar>?x\<bar>" using z by (simp only: abs_mult abs_of_nonneg)
  ultimately have "\<bar>z * ?x\<bar> \<le> z * sqrt ?q" by (simp only:)
  then have "\<bar>z * ?x\<bar> / d \<le> z * sqrt ?q / d"
    using d by (intro divide_right_mono) simp_all
  then have ax: "\<bar>z * ?x\<bar> / d \<le> m" by (simp only: m_def)
  have cd: "c * d = p + z\<^sup>2 / (2 * n)" using d by (simp add: c_def)
  have "(p - c) * d = p * d - (p + z\<^sup>2 / (2 * n))" by (simp only: left_diff_distrib cd)
  also have "\<dots> = z * ?x" using n by (simp add: d_def field_simps power2_eq_square)
  finally have e: "(p - c) * d = z * ?x" .
  have "p - c = (p - c) * d / d" using d by simp
  with e have pc: "p - c = z * ?x / d" by (simp only:)
  have "\<bar>p - c\<bar> = \<bar>z * ?x\<bar> / d" using d by (simp only: pc abs_divide abs_of_pos)
  with ax have "\<bar>p - c\<bar> \<le> m" by (simp only:)
  then show "c - m \<le> p" and "p \<le> c + m" by linarith+
qed

lemma wilson_interval_exact:
  assumes "0 \<le> z" and "0 \<le> successes" and "successes \<le> n_total" and "0 < n_total"
  shows "0 \<le> lower_bound (calculate_proportion_confidence conf z successes n_total)"
    and "lower_bound (calculate_proportion_confidence conf z successes n_total)
           \<le> ci_value (calculate_proportion_confidence conf z successes n_total)"
    and "ci_value (calculate_proportion_confidence conf z successes n_total)
           \<le> upper_bound (calculate_proportion_confidence conf z successes n_total)"
    and "upper_bound (calculate_proportion_confidence conf z successes n_total) \<le> 1"
    and "ci_value (calculate_proportion_confidence conf z successes n_total)
           = real_of_int successes / real_of_int n_total"
proof -
  let ?n = "real_of_int n_total" and ?p = "real_of_int successes / real_of_int n_total"
  have n: "0 < ?n" using assms(4) by simp
  have p0: "0 \<le> ?p" using assms(2) n by simp
  have p1: "?p \<le> 1" using assms(3) n by simp
  note w = wilson_margin_covers [OF p0 p1 assms(1) n]
  have nz: "n_total \<noteq> 0" using assms(4) by simp
  show "0 \<le> lower_bound (calculate_proportion_confidence conf z successes n_total)"
    using nz by (simp add: calculate_proportion_confidence_def Let_def)
  show "upper_bound (calculate_proportion_confidence conf z successes n_total) \<le> 1"
    using nz by (simp add: calculate_proportion_confidence_def Let_def)
  show "lower_bound (calculate_proportion_confidence conf z successes n_total)
           \<le> ci_value (calculate_proportion_confidence conf z successes n_total)"
    using nz w(1) p0 by (simp add: calculate_proportion_confidence_def Let_def)
  show "ci_value (calculate_proportion_confidence conf z successes n_total)
           \<le> upper_bound (calculate_proportion_confidence conf z successes n_total)"
    using nz w(2) p1 by (simp add: calculate_proportion_confidence_def Let_def)
  show "ci_value (calculate_proportion_confidence conf z successes n_total)
           = real_of_int successes / real_of_int n_total"
    using nz by (simp add: calculate_proportion_confidence_def Let_def)
qed

lemma no_trials_all_zero:
  "calculate_proportion_confidence conf z successes 0 =
     \<lparr>ci_value = 0, lower_bound = 0, upper_bound = 0, confidence_level = conf,
      sample_size = 0, standard_error = 0, is_significant = False, margin_of_error = 0\<rparr>"
  by (simp add: calculate_proportion_confidence_def)

section \<open>TrendAnalyzer.calculate_velocity\<close>

lemma length_changes_of [simp]: "length (changes_of ts) = length ts - 1"
  by (simp add: changes_of_def)

lemma nth_changes_of: "i < length ts - 1 \<Longrightarrow> changes_of ts ! i = ts ! Suc i - ts ! i"
  by (simp add: changes_of_def)

lemma acceleration_lookup:
  "map_of (calculate_velocity kendalltau ts) ''acceleration'' =
     Some (PFloat (if length ts < 2 then Fin 0 else acceleration_of (changes_of ts)))"
  by (auto simp: calculate_velocity_def Let_def split: prod.splits)

lemma is_accelerating_lookup:
  "2 \<le> length ts \<Longrightarrow>
   map_of (calculate_velocity kendalltau ts) ''is_accelerating'' =
     Some (PBool (fgt (fabs (acceleration_of (changes_of ts))) (5 / 1000)))"
  by (auto simp: calculate_velocity_def Let_def split: prod.splits)

text \<open>
  With at least four points (three differences) the acceleration is the mean of the
  last two differences minus the mean of the differences before them.
\<close>

lemma acceleration_four_points:
  assumes "4 \<le> length ts"
  shows "map_of (calculate_velocity kendalltau ts) ''acceleration'' =
     Some (PFloat (Fin
       (sum_list (drop (length ts - 3) (changes_of ts)) / 2
        - sum_list (take (length ts - 3) (changes_of ts)) / real (length ts - 3))))"
proof -
  let ?c = "changes_of ts"
  let ?recent = "drop (length ?c - 2) ?c" and ?earlier = "take (length ?c - 2) ?c"
  have l: "length ?c - 2 = length ts - 3" by simp
  have ld: "length ?recent = 2" using assms by simp
  have lt: "length ?earlier = length ts - 3" using assms by simp
  have d: "?recent \<noteq> []"
  proof
    assume "?recent = []"
    then have "length ?recent = 0" by (simp only: list.size)
    with ld show False by linarith
  qed
  have t: "?earlier \<noteq> []"
  proof
    assume "?earlier = []"
    then have "length ?earlier = 0" by (simp only: list.size)
    with lt assms show False by linarith
  qed
  have two: "2 \<le> length ?c" using assms by simp
  have "acceleration_of ?c = fsub (np_mean ?recent) (np_mean ?earlier)"
    using two by (simp only: acceleration_of_def Let_def if_True)
  also have "\<dots> = Fin (sum_list ?recent / real (length ?recent)
      - sum_list ?earlier / real (length ?earlier))"
    using d t by (simp only: np_mean_def if_False fsub.simps)
  also have "\<dots> = Fin (sum_list (drop (length ts - 3) ?c) / 2
        - sum_list (take (length ts - 3) ?c) / real (length ts - 3))"
    by (simp only: ld lt) (simp only: l, simp)
  finally show ?thesis using assms by (simp add: acceleration_lookup)
qed

text \<open>With fewer than two differences (at most two points) the acceleration is 0.\<close>

lemma acceleration_few_points:
  "length ts \<le> 2 \<Longrightarrow>
   map_of (calculate_velocity kendalltau ts) ''acceleration'' = Some (PFloat (Fin 0))"
  by (simp add: acceleration_lookup acceleration_of_def)

text \<open>
  Claim C5 fails on a series of exactly three points. Its two differences are both
  "the last two", the differences before them are none, and \<open>numpy.mean\<close> of none is
  \<open>nan\<close>: the acceleration is \<open>nan\<close>, not a number, and \<open>is_accelerating\<close> is false
  whatever the three values are.
\<close>

theorem calculate_velocity_three_points_nan:
  "map_of (calculate_velocity kendalltau [a, b, c]) ''acceleration'' = Some (PFloat NaN)
   \<and> map_of (calculate_velocity kendalltau [a, b, c]) ''is_accelerating'' = Some (PBool False)
   \<and> map_of (calculate_velocity kendalltau [1 / 10, 2 / 10, 3 / 10]) ''acceleration''
       = Some (PFloat NaN)"
proof -
  have c: "changes_of [x, y, z] = [y - x, z - y]" for x y z :: real
    by (simp add: changes_of_def upt_rec)
  have a: "acceleration_of [u, v] = NaN" for u v :: real
    by (simp add: acceleration_of_def np_mean_def)
  show ?thesis
    by (simp add: acceleration_lookup is_accelerating_lookup c a)
qed

section \<open>ThemeAnalyzer.generate_insights_text\<close>

lemma insights_loop_eq:
  assumes "\<forall>n \<in> set ns.
      map_of (brand_ownership n) yb \<noteq> None \<longrightarrow> map_of (gap_analysis n) yb \<noteq> None"
  shows "insights_loop pct yb ns acc = Inr (acc @ List.map_filter (narrative_insight pct yb) ns)"
  using assms
proof (induction ns arbitrary: acc)
  case Nil
  show ?case by (simp add: map_filter_simps)
next
  case (Cons n ns)
  then have IH: "insights_loop pct yb ns acc' =
      Inr (acc' @ List.map_filter (narrative_insight pct yb) ns)" for acc'
    by simp
  show ?case
  proof (cases "map_of (brand_ownership n) yb")
    case None
    then have "narrative_insight pct yb n = None" by (simp add: narrative_insight_def)
    with None show ?thesis by (simp add: IH map_filter_simps)
  next
    case (Some score)
    with Cons.prems obtain gap where gap: "map_of (gap_analysis n) yb = Some gap" by auto
    have ni: "narrative_insight pct yb n =
        (if leader n = yb then Some (ownership_message pct n score)
         else if gap > 15 / 100 then Some (dominated_message pct n score gap)
         else if gap > 5 / 100 \<and> leader_score n < 50 / 100
           then Some (opportunity_message pct n score)
         else None)"
      using Some gap by (simp add: narrative_insight_def insight_kind_of_def)
    show ?thesis
      using Some gap by (simp add: IH map_filter_simps ni)
  qed
qed

lemma insight_kind_of_cases:
  "(insight_kind_of l g s = Some Ownership \<longleftrightarrow> l)
   \<and> (insight_kind_of l g s = Some Dominated \<longleftrightarrow> \<not> l \<and> g > 15 / 100)
   \<and> (insight_kind_of l g s = Some Opportunity
        \<longleftrightarrow> \<not> l \<and> \<not> g > 15 / 100 \<and> g > 5 / 100 \<and> s < 50 / 100)
   \<and> (insight_kind_of l g s = None
        \<longleftrightarrow> \<not> l \<and> \<not> g > 15 / 100 \<and> \<not> (g > 5 / 100 \<and> s < 50 / 100))"
  by (simp add: insight_kind_of_def)

text \<open>
  Claim C7. For every list of narratives and every target brand, a narrative that has
  the brand in \<open>brand_ownership\<close> having it in \<open>gap_analysis\<close> too (as every
  \<open>NarrativeAnalysis\<close> built by \<open>analyze_narratives\<close> has), \<open>generate_insights_text\<close>
  returns at most 5 strings: the first 5, in the order of the narratives, of the
  insights of the single narratives. A narrative in which the brand takes no part has
  no insight; one in which it takes part has the ownership message if the brand is the
  leader, else the "dominates" message if its gap exceeds 0.15, else the "opportunity"
  message if its gap exceeds 0.05 and the leader's score is below 0.50, else none.
\<close>

theorem generate_insights_text_correct:
  assumes "\<forall>n \<in> set ns.
      map_of (brand_ownership n) yb \<noteq> None \<longrightarrow> map_of (gap_analysis n) yb \<noteq> None"
  shows "\<exists>out. generate_insights_text pct ns yb = Inr out
     \<and> length out \<le> 5
     \<and> out = take 5 (List.map_filter (narrative_insight pct yb) ns)
     \<and> (\<forall>n. map_of (brand_ownership n) yb = None \<longrightarrow> narrative_insight pct yb n = None)
     \<and> (\<forall>n score gap. map_of (brand_ownership n) yb = Some score \<longrightarrow>
           map_of (gap_analysis n) yb = Some gap \<longrightarrow>
           narrative_insight pct yb n =
             (if leader n = yb then Some (ownership_message pct n score)
              else if gap > 15 / 100 then Some (dominated_message pct n score gap)
              else if gap > 5 / 100 \<and> leader_score n < 50 / 100
                then Some (opportunity_message pct n score)
              else None))"
proof -
  have "generate_insights_text pct ns yb =
      Inr (take 5 (List.map_filter (narrative_insight pct yb) ns))"
    by (simp add: generate_insights_text_def insights_loop_eq [OF assms])
  then show ?thesis
    by (simp add: narrative_insight_def insight_kind_of_def)
qed

theorem generate_insights_text_correct_witness:
  "map_of (gap_analysis narrative_led) ''Telekom'' \<noteq> None
   \<and> map_of (brand_ownership narrative_other) ''Telekom'' = None
   \<and> map_of (gap_analysis narrative_dominated) ''Telekom'' \<noteq> None
   \<and> map_of (gap_analysis narrative_contested) ''Telekom'' \<noteq> None
   \<and> generate_insights_text (\<lambda>x. ''n%'')
        [narrative_led, narrative_other, narrative_dominated, narrative_contested] ''Telekom''
       = Inr [ownership_message (\<lambda>x. ''n%'') narrative_led (6 / 10),
              dominated_message (\<lambda>x. ''n%'') narrative_dominated (1 / 10) (3 / 10),
              opportunity_message (\<lambda>x. ''n%'') narrative_contested (1 / 10)]"
proof -
  let ?ns = "[narrative_led, narrative_other, narrative_dominated, narrative_contested]"
  let ?pct = "\<lambda>x :: real. ''n%''"
  have g1: "map_of (gap_analysis narrative_led) ''Telekom'' \<noteq> None"
    by (simp add: narrative_led_def)
  have g2: "map_of (brand_ownership narrative_other) ''Telekom'' = None"
    by (simp add: narrative_other_def)
  have g3: "map_of (gap_analysis narrative_dominated) ''Telekom'' \<noteq> None"
    by (simp add: narrative_dominated_def)
  have g4: "map_of (gap_analysis narrative_contested) ''Telekom'' \<noteq> None"
    by (simp add: narrative_contested_def)
  from g1 g2 g3 g4 have h: "\<forall>n \<in> set ?ns.
      map_of (brand_ownership n) ''Telekom'' \<noteq> None \<longrightarrow> map_of (gap_analysis n) ''Telekom'' \<noteq> None"
    by simp
  from generate_insights_text_correct [OF h, of ?pct] obtain out where
    o: "generate_insights_text ?pct ?ns ''Telekom'' = Inr out"
       "out = take 5 (List.map_filter (narrative_insight ?pct ''Telekom'') ?ns)"
    by blast
  have n1: "narrative_insight ?pct ''Telekom'' narrative_led
      = Some (ownership_message ?pct narrative_led (6 / 10))"
    by (simp add: narrative_insight_def insight_kind_of_def narrative_led_def)
  have n2: "narrative_insight ?pct ''Telekom'' narrative_other = None"
    by (simp add: narrative_insight_def narrative_other_def)
  have n3: "narrative_insight ?pct ''Telekom'' narrative_dominated
      = Some (dominated_message ?pct narrative_dominated (1 / 10) (3 / 10))"
    by (simp add: narrative_insight_def insight_kind_of_def narrative_dominated_def)
  have n4: "narrative_insight ?pct ''Telekom'' narrative_contested
      = Some (opportunity_message ?pct narrative_contested (1 / 10))"
    by (simp add: narrative_insight_def insight_kind_of_def narrative_contested_def)
  from o(2) have "out = [ownership_message ?pct narrative_led (6 / 10),
              dominated_message ?pct narrative_dominated (1 / 10) (3 / 10),
              opportunity_message ?pct narrative_contested (1 / 10)]"
    by (simp add: map_filter_simps n1 n2 n3 n4)
  with o(1) g1 g2 g3 g4 show ?thesis by simp
qed

section \<open>ThemeAnalyzer.extract_themes\<close>

text \<open>On results that record every tracked brand, \<open>extract_themes\<close> returns its insights.\<close>

lemma extract_brand_contexts_example:
  "extract_brand_contexts ''Telekom: best 5G'' ''Telekom'' 150 = [''Telekom: best 5G'']"
  by code_simp

lemma attribute_search_example: "attribute_search ''5g'' ''telekom: best 5g''"
  by code_simp

lemma attribute_search_absent_example: "\<not> attribute_search ''data'' ''telekom: best 5g''"
  by code_simp

lemma scan_context_example:
  "scan_context [] ''Telekom: best 5G'' =
     [(''5g'', 1, [''Telekom: best 5G'']), (''best'', 1, [''Telekom: best 5G''])]"
  by code_simp


lemma extract_themes_example: "extract_themes [''Telekom''] [themed_result] =
   Inr [(''Telekom'',
     [(''5g'', \<lparr>theme = ''5g'', brand = ''Telekom'', frequency = 1,
         example_quotes = [''Telekom: best 5G''], sentiment = ''positive''\<rparr>),
      (''best'', \<lparr>theme = ''best'', brand = ''Telekom'', frequency = 1,
         example_quotes = [''Telekom: best 5G''], sentiment = ''positive''\<rparr>)])]"
proof -
  let ?q = "''Telekom: best 5G''"
  have init: "fold (\<lambda>b d. AList.update b [] d) [''Telekom''] [] = [(''Telekom'', [])]"
    by simp
  have s: "scan_results [''Telekom''] [themed_result] [(''Telekom'', [])] =
      Inr [(''Telekom'', [(''5g'', 1, [?q]), (''best'', 1, [?q])])]"
    by (simp add: themed_result_def extract_brand_contexts_example scan_context_example)
  have c: "map_err (\<lambda>b. bind_err (count_mentioned [themed_result] b) (\<lambda>n. Inr (b, n)))
      [''Telekom''] = Inr [(''Telekom'', 1)]"
    by (simp add: themed_result_def)
  have e: "estimate_sentiment [?q] = ''positive''" by code_simp
  have i: "insights_of_brand ''Telekom'' 1 [(''5g'', 1, [?q]), (''best'', 1, [?q])] =
     [(''5g'', \<lparr>theme = ''5g'', brand = ''Telekom'', frequency = 1,
         example_quotes = [?q], sentiment = ''positive''\<rparr>),
      (''best'', \<lparr>theme = ''best'', brand = ''Telekom'', frequency = 1,
         example_quotes = [?q], sentiment = ''positive''\<rparr>)]"
    by (simp add: insights_of_brand_def e)
  have b: "build_insights [''Telekom''] [(''Telekom'', 1)]
      [(''Telekom'', [(''5g'', 1, [?q]), (''best'', 1, [?q])])] [] =
      Inr [(''Telekom'', insights_of_brand ''Telekom'' 1 [(''5g'', 1, [?q]), (''best'', 1, [?q])])]"
    by simp
  show ?thesis
    by (simp only: extract_themes_def init s c bind_err.simps b i)
qed


lemma scan_brands_error: "scan_brands r bs bt = Inl e \<Longrightarrow> e = KeyError"
  by (induction bs arbitrary: bt) (auto split: option.splits if_splits)

lemma scan_brands_missing:
  "\<exists>b \<in> set bs. map_of (mentions r) b = None \<Longrightarrow> scan_brands r bs bt = Inl KeyError"
proof (induction bs arbitrary: bt)
  case Nil
  then show ?case by simp
next
  case (Cons b bs)
  show ?case
  proof (cases "map_of (mentions r) b")
    case None
    then show ?thesis by simp
  next
    case (Some m)
    with Cons.prems have "\<exists>b \<in> set bs. map_of (mentions r) b = None" by auto
    with Cons.IH have "scan_brands r bs bt' = Inl KeyError" for bt' by blast
    with Some show ?thesis by (simp split: option.splits)
  qed
qed

lemma scan_results_missing:
  "\<exists>r \<in> set rs. \<exists>b \<in> set bs. map_of (mentions r) b = None \<Longrightarrow>
   scan_results bs rs bt = Inl KeyError"
proof (induction rs arbitrary: bt)
  case Nil
  then show ?case by simp
next
  case (Cons r rs)
  show ?case
  proof (cases "scan_brands r bs bt")
    case (Inl e)
    with scan_brands_error have "e = KeyError" by blast
    with Inl show ?thesis by simp
  next
    case (Inr bt')
    have "\<not> (\<exists>b \<in> set bs. map_of (mentions r) b = None)"
    proof
      assume "\<exists>b \<in> set bs. map_of (mentions r) b = None"
      from scan_brands_missing [OF this, of bt] Inr show False by simp
    qed
    with Cons.prems have "\<exists>r \<in> set rs. \<exists>b \<in> set bs. map_of (mentions r) b = None" by auto
    with Cons.IH Inr show ?thesis by simp
  qed
qed

text \<open>
  Claim C10. Whenever some result's mentions lack the key of some tracked brand,
  \<open>extract_themes\<close> fails with \<open>KeyError\<close>, where \<open>calculate_som\<close> on the same brands and
  results has an entry for that brand and counts the result as not mentioning it.
\<close>

theorem extract_themes_missing_brand_key_error:
  assumes "r \<in> set rs" and "b \<in> set bs" and "map_of (mentions r) b = None"
  shows "extract_themes bs rs = Inl KeyError
     \<and> (\<exists>s. map_of (calculate_som bs rs) b = Some s) \<and> \<not> is_mentioned r b"
proof -
  from assms have "\<exists>r \<in> set rs. \<exists>b \<in> set bs. map_of (mentions r) b = None" by blast
  then have "extract_themes bs rs = Inl KeyError"
    by (simp add: extract_themes_def scan_results_missing)
  moreover from assms(1) have "rs \<noteq> []" by auto
  then have "\<exists>s. map_of (calculate_som bs rs) b = Some s"
    using assms(2) by (simp add: calculate_som_lookup)
  ultimately show ?thesis using assms(3) by (simp add: missing_brand_not_mentioned)
qed

theorem extract_themes_missing_brand_key_error_witness:
  "stale_result \<in> set [result1, stale_result]
   \<and> ''Anthropic'' \<in> set [''OpenAI'', ''Anthropic'']
   \<and> map_of (mentions stale_result) ''Anthropic'' = None
   \<and> extract_themes [''OpenAI'', ''Anthropic''] [result1, stale_result] = Inl KeyError
   \<and> (\<exists>s. map_of (calculate_som [''OpenAI'', ''Anthropic''] [result1, stale_result])
            ''Anthropic'' = Some s)"
proof -
  have h1: "stale_result \<in> set [result1, stale_result]" by simp
  have h2: "''Anthropic'' \<in> set [''OpenAI'', ''Anthropic'']" by simp
  have h3: "map_of (mentions stale_result) ''Anthropic'' = None"
    by (simp add: stale_result_def)
  from extract_themes_missing_brand_key_error [OF h1 h2 h3] h1 h2 h3 show ?thesis by blast
qed

section \<open>StorageManager: saving and loading\<close>

lemma BrandMention_round_trip: "BrandMention_from_dict (BrandMention_to_dict m) = Inr m"
proof -
  have k: "set (map fst [(''mentioned'', x), (''first_position'', y), (''count'', z)]) =
      {''mentioned'', ''first_position'', ''count''}" for x y z :: json
    by simp
  show ?thesis
    by (cases m; cases "first_position m")
      (simp_all add: BrandMention_from_dict_def BrandMention_to_dict_def get_item_def)
qed

lemma mentions_round_trip:
  "mentions_from_json (JObj (map (\<lambda>(k, v). (k, BrandMention_to_dict v)) ms)) = Inr ms"
proof -
  have "map_err (\<lambda>(b, d). bind_err (BrandMention_from_dict d) (\<lambda>m. Inr (b, m)))
      (map (\<lambda>(k, v). (k, BrandMention_to_dict v)) ms) = Inr ms"
    by (induction ms) (auto simp: BrandMention_round_trip)
  then show ?thesis by (simp add: mentions_from_json_def)
qed

lemma str_list_round_trip: "map_err as_str (map JStr xs) = Inr xs"
  by (induction xs) auto

lemma QueryResult_round_trip: "QueryResult_from_item (QueryResult_to_dict r) = Inr r"
proof -
  let ?j = "QueryResult_to_dict r"
  have g:
    "get_item ?j ''mentions'' =
       Inr (JObj (map (\<lambda>(k, v). (k, BrandMention_to_dict v)) (mentions r)))"
    "get_item ?j ''timestamp'' = Inr (JStr (timestamp r))"
    "get_item ?j ''category'' = Inr (JStr (category r))"
    "get_item ?j ''query'' = Inr (JStr (query r))"
    "get_item ?j ''run'' = Inr (JInt (run r))"
    "get_item ?j ''model'' = Inr (JStr (model r))"
    "get_item ?j ''provider'' = Inr (JStr (provider r))"
    "get_item ?j ''response'' = Inr (JStr (response r))"
    "get_item ?j ''mention_order'' = Inr (JList (map JStr (mention_order r)))"
    "get_item ?j ''total_mentioned'' = Inr (JInt (total_mentioned r))"
    by (simp_all add: get_item_def QueryResult_to_dict_def)
  show ?thesis
    unfolding QueryResult_from_item_def g
    by (simp add: mentions_round_trip str_list_round_trip)
qed

lemma results_round_trip:
  "map_err QueryResult_from_item (map QueryResult_to_dict rs) = Inr rs"
  by (induction rs) (auto simp: QueryResult_round_trip)

lemma read_results_written:
  "read_results (JsonFile (JList (map QueryResult_to_dict rs))) = Inr rs"
  by (simp add: read_results_def results_round_trip)

lemma map_of_filter_other:
  "m \<noteq> n \<Longrightarrow> map_of (filter (\<lambda>(k, _). k \<noteq> n) st) m = map_of st m"
  by (induction st) auto

lemma map_of_write_file:
  "map_of (write_file st n c) m = (if m = n then Some c else map_of st m)"
  by (simp add: write_file_def map_of_filter_other)

lemma results_name_is_results_file: "is_results_file (''som_results_'' @ now @ ''.json'')"
  by (simp add: is_results_file_def startswith_def)

lemma history_not_results_file: "\<not> is_results_file HISTORY_FILE"
  by (simp add: is_results_file_def HISTORY_FILE_def)

lemma results_name_not_history: "''som_results_'' @ now @ ''.json'' \<noteq> HISTORY_FILE"
  by (simp add: HISTORY_FILE_def)

lemma update_history_readable:
  assumes "history_readable st"
  shows "\<exists>rows. update_history st rs = Inr (write_file st HISTORY_FILE (CsvFile rows))"
  using assms
  by (auto simp: history_readable_def update_history_def
      split: option.splits file_content.splits)

text \<open>
  Claim C8. Saving any list of \<open>QueryResult\<close> records with \<open>save_results\<close> (each record
  serialised by \<open>to_dict\<close>) and loading with \<open>load_results\<close> under the same name, or
  without a name after a save without a name, gives back the same list of records,
  field for field; a \<open>first_position\<close> of \<open>None\<close> is written as \<open>null\<close> and read back as
  \<open>None\<close>. The name is not that of the history CSV, and the history file in the
  directory, if any, is a CSV file.
\<close>

theorem save_load_round_trip:
  assumes "history_readable st" and "filename \<noteq> Some HISTORY_FILE"
  shows "\<exists>path st'. save_results now st rs filename = Inr (path, st')
     \<and> load_results st' filename = Inr rs
     \<and> (\<forall>m. get_item (BrandMention_to_dict m) ''first_position'' =
            Inr (case first_position m of None \<Rightarrow> JNull | Some p \<Rightarrow> JInt p))
     \<and> (\<forall>m. BrandMention_from_dict (BrandMention_to_dict m) = Inr m)"
proof -
  let ?fname = "case filename of None \<Rightarrow> ''som_results_'' @ now @ ''.json'' | Some f \<Rightarrow> f"
  let ?doc = "JsonFile (JList (map QueryResult_to_dict rs))"
  let ?st1 = "write_file st ?fname ?doc"
  have ne: "?fname \<noteq> HISTORY_FILE"
    using assms(2) results_name_not_history by (cases filename) auto
  then have "history_readable ?st1"
    using assms(1) by (simp add: history_readable_def map_of_write_file)
  from update_history_readable [OF this, of rs] obtain rows where
    u: "update_history ?st1 rs = Inr (write_file ?st1 HISTORY_FILE (CsvFile rows))" by blast
  let ?st2 = "write_file ?st1 HISTORY_FILE (CsvFile rows)"
  have s: "save_results now st rs filename = Inr (DATA_DIR @ ''/'' @ ?fname, ?st2)"
    by (simp add: save_results_def Let_def u)
  have l: "load_results ?st2 filename = Inr rs"
  proof (cases filename)
    case None
    then have f: "?fname = ''som_results_'' @ now @ ''.json''" by simp
    have "filter (\<lambda>(n, _). is_results_file n) ?st2 =
        (?fname, ?doc) # filter (\<lambda>(n, _). is_results_file n)
           (filter (\<lambda>(n, _). n \<noteq> HISTORY_FILE) (filter (\<lambda>(n, _). n \<noteq> ?fname) st))"
      using ne history_not_results_file results_name_is_results_file [of now]
      by (simp add: write_file_def f)
    with None show ?thesis by (simp add: load_results_def read_results_written)
  next
    case (Some f)
    with ne have "map_of ?st2 f = Some ?doc" by (simp add: map_of_write_file)
    with Some show ?thesis by (simp add: load_results_def read_results_written)
  qed
  have n: "get_item (BrandMention_to_dict m) ''first_position'' =
      Inr (case first_position m of None \<Rightarrow> JNull | Some p \<Rightarrow> JInt p)" for m
    by (simp add: get_item_def BrandMention_to_dict_def)
  from s l n BrandMention_round_trip show ?thesis by blast
qed


theorem save_load_round_trip_witness:
  "history_readable []
   \<and> (None :: string option) \<noteq> Some HISTORY_FILE
   \<and> (\<exists>path st'.
         save_results ''20240101_120000'' [] [result1, result2] None = Inr (path, st')
         \<and> load_results st' None = Inr [result1, result2])
   \<and> BrandMention_to_dict \<lparr>mentioned = False, first_position = None, count = 0\<rparr> =
       JObj [(''mentioned'', JBool False), (''first_position'', JNull), (''count'', JInt 0)]"
proof -
  have h1: "history_readable []" by (simp add: history_readable_def)
  have h2: "(None :: string option) \<noteq> Some HISTORY_FILE" by simp
  from save_load_round_trip [OF h1 h2, of "''20240101_120000''" "[result1, result2]"]
  have "\<exists>path st'.
         save_results ''20240101_120000'' [] [result1, result2] None = Inr (path, st')
         \<and> load_results st' None = Inr [result1, result2]"
    by blast
  moreover have "BrandMention_to_dict \<lparr>mentioned = False, first_position = None, count = 0\<rparr> =
       JObj [(''mentioned'', JBool False), (''first_position'', JNull), (''count'', JInt 0)]"
    by (simp add: BrandMention_to_dict_def)
  ultimately show ?thesis using h1 h2 by blast
qed

end
